theory Spec2Isabelle
  imports Main "HOL-Library.AList"
begin

section \<open>JavaScript values used by the publish script\<close>

text \<open>
  An error object, as the script inspects it: the \<open>message\<close> (tested against
  \<open>/ECONNRESET/\<close>) and the \<open>code\<close> (compared with \<open>=== 409\<close>). The storage and
  database clients put a number (the HTTP status) or a string (\<open>'ECONNRESET'\<close>) there;
  \<open>new Error(msg)\<close> has none.
\<close>

datatype errcode = NoCode | NumCode int | StrCode string

record error =
  err_message :: string
  err_code :: errcode

definition new_Error :: "string \<Rightarrow> error" where
  "new_Error msg = \<lparr>err_message = msg, err_code = NoCode\<rparr>"

text \<open>
  The regular expressions of the script use literal characters, \<open>.\<close>, the anchors
  \<open>^\<close> and \<open>$\<close> and alternation only. A pattern without anchors is a list of atoms;
  \<open>regexp_search\<close> is \<open>RegExp.prototype.test\<close> for such a pattern: a match may start at
  any position. Strings are lists of 8-bit characters; \<open>.\<close> matches any character but a
  line terminator.
\<close>

datatype atom = Lit char | Dot

fun atom_matches :: "atom \<Rightarrow> char \<Rightarrow> bool" where
  "atom_matches (Lit c) d = (c = d)"
| "atom_matches Dot d = (d \<noteq> CHR 0x0A \<and> d \<noteq> CHR 0x0D)"

fun match_here :: "atom list \<Rightarrow> string \<Rightarrow> bool" where
  "match_here [] s = True"
| "match_here (a # as) [] = False"
| "match_here (a # as) (c # cs) = (atom_matches a c \<and> match_here as cs)"

fun regexp_search :: "atom list \<Rightarrow> string \<Rightarrow> bool" where
  "regexp_search p [] = match_here p []"
| "regexp_search p (c # cs) = (match_here p (c # cs) \<or> regexp_search p cs)"

definition literal :: "string \<Rightarrow> atom list" where
  "literal s = map Lit s"

definition is_ECONNRESET :: "error \<Rightarrow> bool" where
  \<comment> \<open>\<open>/ECONNRESET/.test(err.message)\<close>\<close>
  "is_ECONNRESET err = regexp_search (literal ''ECONNRESET'') (err_message err)"

section \<open>retry\<close>

text \<open>
  An asynchronous function that touches the outside world is a function from the state
  before the call to its outcome (\<open>Inl\<close> a rejection, \<open>Inr\<close> the value) and the state
  after it. \<open>retry_from run fn\<close> is the \<open>for\<close> loop of \<open>retry\<close> entered with the loop
  variable \<open>run\<close>; the informational \<open>console.log\<close> lines are not part of the model.
\<close>

type_synonym ('s, 'a) async = "'s \<Rightarrow> (error + 'a) \<times> 's"

definition RETRY_TIMES :: nat where
  "RETRY_TIMES = 10"

function retry_from :: "nat \<Rightarrow> ('s, 'a) async \<Rightarrow> ('s, 'a) async" where
  "retry_from run fn s =
     (if run \<le> RETRY_TIMES then
        (case fn s of
           (Inr v, s') \<Rightarrow> (Inr v, s')
         | (Inl err, s') \<Rightarrow>
             if \<not> is_ECONNRESET err then (Inl err, s')
             else retry_from (run + 1) fn s')
      else (Inl (new_Error ''Retried too many times''), s))"
  by pat_completeness auto
termination
  by (relation "measure (\<lambda>(run, fn, s). RETRY_TIMES + 1 - run)") auto

definition retry :: "('s, 'a) async \<Rightarrow> ('s, 'a) async" where
  "retry fn s = retry_from 1 fn s"

text \<open>
  To speak about the calls of \<open>fn\<close> that \<open>retry\<close> makes, \<open>logged fn\<close> runs \<open>fn\<close> on the
  second component of the state and appends the outcome of the call to the first.
\<close>

definition logged :: "('s, 'a) async \<Rightarrow> ((error + 'a) list \<times> 's, 'a) async" where
  "logged fn = (\<lambda>(log, s). case fn s of (r, s') \<Rightarrow> (r, (log @ [r], s')))"

definition reset_outcome :: "error + 'a \<Rightarrow> bool" where
  "reset_outcome r = (case r of Inl e \<Rightarrow> is_ECONNRESET e | Inr v \<Rightarrow> False)"

section \<open>Documents and the outside world of the publish script\<close>

record asset =
  asset_platform :: string
  asset_type :: string
  asset_url :: string
  asset_hash :: string
  asset_sha256hash :: string
  asset_size :: nat
  asset_supportsFastUpdate :: "bool option"

text \<open>
  A release document. \<open>release_self\<close> is the \<open>_self\<close> link that the database adds to a
  stored document; \<open>release_updates\<close> is a JavaScript object used as a dictionary, kept as
  the association list of its own properties. The list is read through \<open>map_of\<close>; the
  order of its entries has no meaning.
\<close>

record release =
  release_self :: "string option"
  release_id :: string
  release_timestamp :: int
  release_version :: string
  release_isReleased :: bool
  release_sourceBranch :: "string option"
  release_queuedBy :: "string option"
  release_assets :: "asset list"
  release_updates :: "(string \<times> string) list"

record config =
  config_id :: string
  config_frozen :: bool

text \<open>
  The assignment \<open>obj[key] = value\<close> of a string to a property of a plain object. It sets
  the own property \<open>key\<close>, with one exception: \<open>__proto__\<close> names the accessor that every
  plain object inherits, and its setter ignores a string, so nothing is added; only an
  object that has an own property of that name already (a parsed JSON document may) has
  it overwritten.
\<close>

definition js_assign :: "string \<Rightarrow> string \<Rightarrow> (string \<times> string) list \<Rightarrow> (string \<times> string) list" where
  "js_assign key v obj =
     (if key = ''__proto__'' \<and> map_of obj key = None then obj else AList.update key v obj)"

record opts =
  opts_positional :: "string list"
  opts_upload_only :: bool

text \<open>
  Every call that leaves the process, in the order in which the script makes it. The
  arguments are those of the source: \<open>fs.stat(file)\<close>, \<open>hashStream(hashName, stream)\<close>
  on the read stream of \<open>file\<close>, \<open>createContainerIfNotExists(quality, {publicAccessLevel})\<close>,
  \<open>doesBlobExist(quality, blobName)\<close>,
  \<open>createBlockBlobFromLocalFile(quality, blobName, file, {contentType, cacheControl})\<close>,
  \<open>queryDocuments\<close> on the config collection with \<open>@quality\<close>,
  \<open>createDocument(collection, release)\<close>, \<open>queryDocuments(collection)\<close> with \<open>@id\<close>,
  \<open>replaceDocument(release._self, release)\<close>, and the two writes of \<open>main\<close> to the
  error stream.
\<close>

datatype call =
    Stat string
  | HashStream string string
  | CreateContainerIfNotExists string string
  | DoesBlobExist string string
  | CreateBlockBlobFromLocalFile string string string string string
  | QueryConfig string string
  | CreateDocument string release
  | QueryDocuments string string
  | ReplaceDocument "string option" release
  | ConsoleWarn string
  | ConsoleError string

text \<open>
  The world outside the script: the process (\<open>process.argv\<close>, \<open>process.env\<close>, the clock),
  the libraries \<open>mime\<close> and \<open>minimist\<close>, and the replies of the file system, the blob
  storage and the document database. A reply may depend on everything the script has done
  so far: it is a function of the calls made, the one being answered last. A database
  reply to the config query is the pair \<open>(err, results)\<close> of the callback, either of which
  may be missing; a reply to the update query is an error or the array of results.
  \<open>stat_undefined\<close> is the \<open>TypeError\<close> that \<open>fs.stat\<close> throws, before it calls the file
  system, when its path is \<open>undefined\<close>; its text belongs to the version of Node.
\<close>

record world =
  argv :: "string list"
  process_env :: "string \<Rightarrow> string option"
  date_now :: int
  mime_lookup :: "string \<Rightarrow> string"
  minimist :: "string list \<Rightarrow> opts"
  stat_undefined :: error
  stat_reply :: "call list \<Rightarrow> error + nat"
  hash_reply :: "call list \<Rightarrow> string \<Rightarrow> error + string"
  createContainer_reply :: "call list \<Rightarrow> error option"
  doesBlobExist_reply :: "call list \<Rightarrow> error + bool"
  createBlockBlob_reply :: "call list \<Rightarrow> error option"
  queryConfig_reply :: "call list \<Rightarrow> error option \<times> config list option"
  createDocument_reply :: "call list \<Rightarrow> error option"
  queryDocuments_reply :: "call list \<Rightarrow> error + release list"
  replaceDocument_reply :: "call list \<Rightarrow> error option"

text \<open>\<open>await m\<close> followed by the rest of an \<open>async\<close> function: a rejection ends it.\<close>

definition await :: "('s, 'a) async \<Rightarrow> ('a \<Rightarrow> ('s, 'b) async) \<Rightarrow> ('s, 'b) async" where
  "await m f s = (case m s of (Inl e, s') \<Rightarrow> (Inl e, s') | (Inr v, s') \<Rightarrow> f v s')"

definition callback_result :: "error option \<Rightarrow> error + unit" where
  \<comment> \<open>\<open>err => err ? e(err) : c()\<close>\<close>
  "callback_result err = (case err of Some e \<Rightarrow> Inl e | None \<Rightarrow> Inr ())"

section \<open>getConfig\<close>

definition createDefaultConfig :: "string \<Rightarrow> config" where
  "createDefaultConfig quality = \<lparr>config_id = quality, config_frozen = False\<rparr>"

definition first_or_default :: "string \<Rightarrow> config list option \<Rightarrow> config" where
  \<comment> \<open>\<open>!results || results.length === 0 ? createDefaultConfig(quality) : results[0]\<close>\<close>
  "first_or_default quality results =
     (case results of
        None \<Rightarrow> createDefaultConfig quality
      | Some [] \<Rightarrow> createDefaultConfig quality
      | Some (c # cs) \<Rightarrow> c)"

definition getConfig_attempt :: "world \<Rightarrow> string \<Rightarrow> (call list, config) async" where
  "getConfig_attempt w quality tr =
     (let tr' = tr @ [QueryConfig ''dbs/builds/colls/config'' quality] in
      case queryConfig_reply w tr' of
        (Some err, results) \<Rightarrow>
          if err_code err \<noteq> NumCode 409 then (Inl err, tr')
          else (Inr (first_or_default quality results), tr')
      | (None, results) \<Rightarrow> (Inr (first_or_default quality results), tr'))"

definition getConfig :: "world \<Rightarrow> string \<Rightarrow> (call list, config) async" where
  "getConfig w quality = retry (getConfig_attempt w quality)"

section \<open>createOrUpdate\<close>

definition replace_asset :: "string \<Rightarrow> string \<Rightarrow> asset \<Rightarrow> asset list \<Rightarrow> asset list" where
  \<comment> \<open>\<open>[...release.assets.filter(a => !(a.platform === platform && a.type === type)), asset]\<close>\<close>
  "replace_asset platform type asset assets =
     filter (\<lambda>a. \<not> (asset_platform a = platform \<and> asset_type a = type)) assets @ [asset]"

definition updated_release :: "string \<Rightarrow> string \<Rightarrow> asset \<Rightarrow> bool \<Rightarrow> release \<Rightarrow> release" where
  \<comment> \<open>what \<open>update\<close> does to the document it has read, before it writes it back\<close>
  "updated_release platform type asset isUpdate release =
     (let release1 = release\<lparr>release_assets :=
             replace_asset platform type asset (release_assets release)\<rparr>
      in if isUpdate
         then release1\<lparr>release_updates := js_assign platform type (release_updates release1)\<rparr>
         else release1)"

text \<open>
  \<open>update\<close> is a closure of \<open>createOrUpdate\<close>; the variable \<open>updateTries\<close> that it counts
  in belongs to \<open>createOrUpdate\<close>, so the state of \<open>update\<close> is that counter and the calls
  made so far.
\<close>

function update ::
  "world \<Rightarrow> string \<Rightarrow> string \<Rightarrow> string \<Rightarrow> string \<Rightarrow> asset \<Rightarrow> bool \<Rightarrow> (nat \<times> call list, unit) async"
where
  "update w collection commit platform type asset isUpdate (updateTries, tr) =
     (let tries = updateTries + 1;
          tr1 = tr @ [QueryDocuments collection commit] in
      case queryDocuments_reply w tr1 of
        Inl err \<Rightarrow> (Inl err, (tries, tr1))
      | Inr results \<Rightarrow>
          if length results \<noteq> 1 then (Inl (new_Error ''No documents''), (tries, tr1))
          else
            let release = updated_release platform type asset isUpdate (results ! 0);
                tr2 = tr1 @ [ReplaceDocument (release_self release) release] in
            (case replaceDocument_reply w tr2 of
               Some err \<Rightarrow>
                 if err_code err = NumCode 409 \<and> tries < 5
                 then update w collection commit platform type asset isUpdate (tries, tr2)
                 else (Inl err, (tries, tr2))
             | None \<Rightarrow> (Inr (), (tries, tr2))))"
  by pat_completeness auto
termination
  by (relation "measure (\<lambda>(w, collection, commit, platform, type, asset, isUpdate, updateTries, tr).
        5 - updateTries)") auto

definition createOrUpdate_attempt ::
  "world \<Rightarrow> string \<Rightarrow> string \<Rightarrow> string \<Rightarrow> string \<Rightarrow> release \<Rightarrow> asset \<Rightarrow> bool
     \<Rightarrow> (nat \<times> call list, unit) async"
where
  "createOrUpdate_attempt w collection commit platform type release asset isUpdate =
     (\<lambda>(updateTries, tr).
        let tr1 = tr @ [CreateDocument collection release] in
        case createDocument_reply w tr1 of
          Some err \<Rightarrow>
            if err_code err = NumCode 409
            then update w collection commit platform type asset isUpdate (updateTries, tr1)
            else (Inl err, (updateTries, tr1))
        | None \<Rightarrow> (Inr (), (updateTries, tr1)))"

definition createOrUpdate ::
  "world \<Rightarrow> string \<Rightarrow> string \<Rightarrow> string \<Rightarrow> string \<Rightarrow> release \<Rightarrow> asset \<Rightarrow> bool
     \<Rightarrow> (call list, unit) async"
where
  "createOrUpdate w commit quality platform type release asset isUpdate tr =
     (let collection = ''dbs/builds/colls/'' @ quality in
      case retry (createOrUpdate_attempt w collection commit platform type release asset isUpdate)
             (0, tr) of
        (r, (updateTries, tr')) \<Rightarrow> (r, tr'))"

section \<open>publish\<close>

definition resolve :: "'a \<Rightarrow> ('s, 'a) async" where
  "resolve v s = (Inr v, s)"

definition fs_stat :: "world \<Rightarrow> string \<Rightarrow> (call list, nat) async" where
  \<comment> \<open>\<open>fs.stat(file, ...)\<close>, of which the script reads \<open>stat.size\<close>\<close>
  "fs_stat w file tr = (let tr' = tr @ [Stat file] in (stat_reply w tr', tr'))"

text \<open>
  \<open>Promise.all([hashStream('sha1', stream), hashStream('sha256', stream)])\<close>: both hashes
  are started on the one read stream before either is awaited, and the rejection of
  either rejects the whole.
\<close>

definition hashStreams :: "world \<Rightarrow> string \<Rightarrow> (call list, string \<times> string) async" where
  "hashStreams w file tr =
     (let tr' = tr @ [HashStream ''sha1'' file, HashStream ''sha256'' file] in
      case hash_reply w tr' ''sha1'' of
        Inl e \<Rightarrow> (Inl e, tr')
      | Inr sha1hash \<Rightarrow>
          (case hash_reply w tr' ''sha256'' of
             Inl e \<Rightarrow> (Inl e, tr')
           | Inr sha256hash \<Rightarrow> (Inr (sha1hash, sha256hash), tr')))"

definition assertContainer :: "world \<Rightarrow> string \<Rightarrow> (call list, unit) async" where
  "assertContainer w quality tr =
     (let tr' = tr @ [CreateContainerIfNotExists quality ''blob''] in
      (callback_result (createContainer_reply w tr'), tr'))"

definition doesAssetExist :: "world \<Rightarrow> string \<Rightarrow> string \<Rightarrow> (call list, bool) async" where
  \<comment> \<open>the reply is \<open>existsResult.exists\<close>\<close>
  "doesAssetExist w quality blobName tr =
     (let tr' = tr @ [DoesBlobExist quality blobName] in (doesBlobExist_reply w tr', tr'))"

definition uploadBlob :: "world \<Rightarrow> string \<Rightarrow> string \<Rightarrow> string \<Rightarrow> (call list, unit) async" where
  "uploadBlob w quality blobName file tr =
     (let tr' = tr @ [CreateBlockBlobFromLocalFile quality blobName file
                        (mime_lookup w file) ''max-age=31536000, public''] in
      (callback_result (createBlockBlob_reply w tr'), tr'))"

definition js_string :: "string option \<Rightarrow> string" where
  \<comment> \<open>a possibly undefined value where JavaScript wants a string\<close>
  "js_string v = (case v of None \<Rightarrow> ''undefined'' | Some s \<Rightarrow> s)"

definition regexp_exact :: "atom list \<Rightarrow> string \<Rightarrow> bool" where
  \<comment> \<open>\<open>/^p$/.test(s)\<close>\<close>
  "regexp_exact p s = (match_here p s \<and> length s = length p)"

definition isReleased_of :: "string \<Rightarrow> string option \<Rightarrow> string option \<Rightarrow> bool" where
  "isReleased_of quality sourceBranch queuedBy =
     (let sb = js_string sourceBranch; qb = js_string queuedBy in
      ((quality = ''insider'' \<and>
          (regexp_exact (literal ''main'') sb \<or> regexp_exact (literal ''refs/heads/main'') sb)) \<or>
       (quality = ''rc1'' \<and>
          (match_here (literal ''release/'') sb \<or> match_here (literal ''refs/heads/release/'') sb))) \<and>
      (regexp_search (literal ''Project Collection Service Accounts'') qb \<or>
       regexp_search (literal ''Microsoft'' @ [Dot] @ literal ''VisualStudio'' @ [Dot] @
                      literal ''Services'' @ [Dot] @ literal ''TFS'') qb))"

definition make_asset ::
  "world \<Rightarrow> string \<Rightarrow> string \<Rightarrow> string \<Rightarrow> string \<Rightarrow> string \<Rightarrow> string \<Rightarrow> nat \<Rightarrow> asset"
where
  "make_asset w quality platform type blobName sha1hash sha256hash file_size =
     (let asset = \<lparr>asset_platform = platform, asset_type = type,
                    asset_url = js_string (process_env w ''AZURE_CDN_URL'') @ ''/'' @ quality @ ''/'' @ blobName,
                    asset_hash = sha1hash, asset_sha256hash = sha256hash, asset_size = file_size,
                    asset_supportsFastUpdate = None\<rparr>
      in if regexp_search (literal ''win32'') platform
         then asset\<lparr>asset_supportsFastUpdate := Some True\<rparr>
         else asset)"

definition make_release ::
  "world \<Rightarrow> string \<Rightarrow> string \<Rightarrow> string \<Rightarrow> string \<Rightarrow> string \<Rightarrow> bool \<Rightarrow> asset \<Rightarrow> opts \<Rightarrow> release"
where
  "make_release w commit quality platform type version isUpdate asset opts =
     (let queuedBy = process_env w ''BUILD_QUEUEDBY'';
          sourceBranch = process_env w ''BUILD_SOURCEBRANCH'';
          release = \<lparr>release_self = None, release_id = commit, release_timestamp = date_now w,
                      release_version = version,
                      release_isReleased = isReleased_of quality sourceBranch queuedBy,
                      release_sourceBranch = sourceBranch, release_queuedBy = queuedBy,
                      release_assets = [], release_updates = []\<rparr>
      in if \<not> opts_upload_only opts
         then (let release1 = release\<lparr>release_assets := release_assets release @ [asset]\<rparr>
               in if isUpdate
                  then release1\<lparr>release_updates :=
                         js_assign platform type (release_updates release1)\<rparr>
                  else release1)
         else release)"

definition publish ::
  "world \<Rightarrow> string \<Rightarrow> string \<Rightarrow> string \<Rightarrow> string \<Rightarrow> string \<Rightarrow> string \<Rightarrow> string \<Rightarrow> string \<Rightarrow> opts
     \<Rightarrow> (call list, unit) async"
where
  "publish w commit quality platform type name version isUpdate_arg file opts =
     (let isUpdate = (isUpdate_arg = ''true'') in
      await (fs_stat w file) (\<lambda>file_size.
      await (hashStreams w file) (\<lambda>(sha1hash, sha256hash).
      let blobName = commit @ ''/'' @ name in
      await (assertContainer w quality) (\<lambda>_.
      await (doesAssetExist w quality blobName) (\<lambda>blobExists.
      if blobExists then resolve ()
      else
        await (uploadBlob w quality blobName file) (\<lambda>_.
        await (getConfig w quality) (\<lambda>config.
        let asset = make_asset w quality platform type blobName sha1hash sha256hash file_size;
            release = make_release w commit quality platform type version isUpdate asset opts
        in createOrUpdate w commit quality platform type release asset isUpdate)))))))"

section \<open>main and the script\<close>

definition usage :: string where
  "usage = ''Usage: node publish.js <product_quality> <platform> <file_type> <file_name> <version> <is_update> <file> [commit_id]''"

text \<open>
  The result of a run is the exit code of the process and the calls it made. The exit
  code is the number that the script hands to \<open>process.exit\<close>; a process that is not
  ended by \<open>process.exit\<close> ends with code 0 when nothing is left to do.
  \<open>opts._\<close> holds the positional arguments; when there are fewer than seven of them
  \<open>file\<close> is undefined, \<open>fs.stat\<close> throws inside the promise of \<open>publish\<close> before anything
  is called, and \<open>publish\<close> rejects.
\<close>

definition main :: "world \<Rightarrow> int \<times> call list" where
  "main w =
     (case process_env w ''BUILD_SOURCEVERSION'' of
        None \<Rightarrow> (0, [ConsoleWarn ''Skipping publish due to missing BUILD_SOURCEVERSION''])
      | Some commit \<Rightarrow>
          if commit = [] then (0, [ConsoleWarn ''Skipping publish due to missing BUILD_SOURCEVERSION''])
          else
            (let opts = minimist w (drop 2 (argv w)) in
             case (case opts_positional opts of
                     quality # platform # type # name # version # isUpdate_arg # file # rest \<Rightarrow>
                       publish w commit quality platform type name version isUpdate_arg file opts []
                   | _ \<Rightarrow> (Inl (stat_undefined w), [])) of
               (Inl err, tr) \<Rightarrow> (1, tr @ [ConsoleError (err_message err)])
             | (Inr u, tr) \<Rightarrow> (0, tr)))"

definition publish_js :: "world \<Rightarrow> int \<times> call list" where
  \<comment> \<open>the module from top to bottom: the check of \<open>process.argv\<close>, then \<open>main()\<close>\<close>
  "publish_js w =
     (if length (argv w) < 9 then (- 1, [ConsoleError usage]) else main w)"

section \<open>The table cell editors\<close>

text \<open>
  A row of the grid (\<open>Slick.SlickData\<close>) is read by field name: \<open>item f\<close> is the value of
  \<open>item[f]\<close>, by the declared type of the getter a string, or \<open>None\<close> for \<open>null\<close> and
  \<open>undefined\<close>; a column names its field. The default setter is the assignment
  \<open>item[column.field] = value\<close>, which for the field \<open>__proto__\<close> changes nothing in an
  item that has no string there.
\<close>

type_synonym item = "string \<Rightarrow> string option"

record column =
  column_field :: string

record ITableCellEditorOptions =
  valueGetter :: "(item \<Rightarrow> column \<Rightarrow> string option) option"
  valueSetter :: "(nat \<Rightarrow> item \<Rightarrow> column \<Rightarrow> string \<Rightarrow> item) option"
  optionsGetter :: "(item \<Rightarrow> column \<Rightarrow> string list option) option"

record TableCellEditorFactory =
  factory_valueGetter :: "item \<Rightarrow> column \<Rightarrow> string option"
  factory_valueSetter :: "nat \<Rightarrow> item \<Rightarrow> column \<Rightarrow> string \<Rightarrow> item"
  factory_optionsGetter :: "item \<Rightarrow> column \<Rightarrow> string list option"

definition new_TableCellEditorFactory :: "ITableCellEditorOptions \<Rightarrow> TableCellEditorFactory" where
  "new_TableCellEditorFactory options =
     \<lparr>factory_valueGetter =
        (case valueGetter options of
           Some g \<Rightarrow> g
         | None \<Rightarrow> (\<lambda>item column. item (column_field column))),
      factory_valueSetter =
        (case valueSetter options of
           Some f \<Rightarrow> f
         | None \<Rightarrow> (\<lambda>row item column v.
                     if column_field column = ''__proto__'' \<and> item (column_field column) = None
                     then item
                     else item(column_field column \<mapsto> v))),
      factory_optionsGetter =
        (case optionsGetter options of
           Some g \<Rightarrow> g
         | None \<Rightarrow> (\<lambda>item column. Some []))\<rparr>"

text \<open>
  Modelled from the spec: the \<open>InputBox\<close> widget, whose class is not among the sources.
  The spec gives a cell editor an "original value (string)" and a "current widget value";
  the widget is that current value, which an assignment to \<open>value\<close> sets and a read of
  \<open>value\<close> returns.
\<close>

record InputBox =
  input_value :: string

text \<open>
  The editor that \<open>getTextEditorClass\<close> returns. \<open>_originalValue\<close> is undefined until
  \<open>loadValue\<close> has run; calling \<open>toString\<close> on it then throws a \<open>TypeError\<close>.
\<close>

record TextEditor =
  te_column :: column
  te_originalValue :: "string option"
  te_input :: InputBox

record ValidateResults =
  valid :: bool
  msg :: "string option"

datatype editor_error = TypeError

definition text_init :: "column \<Rightarrow> TextEditor" where
  "text_init col = \<lparr>te_column = col, te_originalValue = None, te_input = \<lparr>input_value = []\<rparr>\<rparr>"

definition text_loadValue :: "TableCellEditorFactory \<Rightarrow> item \<Rightarrow> TextEditor \<Rightarrow> TextEditor" where
  "text_loadValue self item ed =
     (let originalValue = (case factory_valueGetter self item (te_column ed) of
                             None \<Rightarrow> [] | Some v \<Rightarrow> v)
      in ed\<lparr>te_originalValue := Some originalValue,
             te_input := (te_input ed)\<lparr>input_value := originalValue\<rparr>\<rparr>)"

definition text_applyValue ::
  "TableCellEditorFactory \<Rightarrow> nat \<Rightarrow> item \<Rightarrow> string \<Rightarrow> TextEditor \<Rightarrow> item" where
  "text_applyValue self activeRow item state ed =
     factory_valueSetter self activeRow item (te_column ed) state"

definition text_isValueChanged :: "TextEditor \<Rightarrow> editor_error + bool" where
  "text_isValueChanged ed =
     (case te_originalValue ed of
        None \<Rightarrow> Inl TypeError
      | Some originalValue \<Rightarrow> Inr (input_value (te_input ed) \<noteq> originalValue))"

definition text_serializeValue :: "TextEditor \<Rightarrow> string" where
  "text_serializeValue ed = input_value (te_input ed)"

definition text_validate :: "TextEditor \<Rightarrow> ValidateResults" where
  "text_validate ed = \<lparr>valid = True, msg = None\<rparr>"

definition user_types :: "string \<Rightarrow> TextEditor \<Rightarrow> TextEditor" where
  \<comment> \<open>the user edits the text of the input widget\<close>
  "user_types v ed = ed\<lparr>te_input := (te_input ed)\<lparr>input_value := v\<rparr>\<rparr>"

text \<open>
  The editor that \<open>getDropdownEditorClass\<close> returns holds, besides the original value,
  the editable dropdown or the select box, by \<open>isEditable\<close>; of either widget the editor
  reads the current value.
\<close>

record DropdownEditor =
  de_column :: column
  de_isEditable :: bool
  de_originalValue :: "string option"
  de_dropdown_value :: string
  de_selectBox_value :: string

definition dropdown_isValueChanged :: "DropdownEditor \<Rightarrow> editor_error + bool" where
  "dropdown_isValueChanged ed =
     (case de_originalValue ed of
        None \<Rightarrow> Inl TypeError
      | Some originalValue \<Rightarrow>
          if de_isEditable ed then Inr (de_dropdown_value ed \<noteq> originalValue)
          else Inr (de_selectBox_value ed \<noteq> originalValue))"

definition dropdown_serializeValue :: "DropdownEditor \<Rightarrow> string" where
  "dropdown_serializeValue ed =
     (if de_isEditable ed then de_dropdown_value ed else de_selectBox_value ed)"

definition dropdown_validate :: "DropdownEditor \<Rightarrow> ValidateResults" where
  "dropdown_validate ed = \<lparr>valid = True, msg = None\<rparr>"

section \<open>Observations on runs\<close>

text \<open>
  Predicates on calls, to state what a run did and did not do: the upload of the blob,
  the query for the quality config, the writes of a release document (\<open>createDocument\<close>,
  \<open>replaceDocument\<close>) and, with the query that \<open>update\<close> makes, the calls on release
  documents.
\<close>

fun is_upload :: "call \<Rightarrow> bool" where
  "is_upload (CreateBlockBlobFromLocalFile quality blobName file contentType cacheControl) = True"
| "is_upload c = False"

fun is_config_query :: "call \<Rightarrow> bool" where
  "is_config_query (QueryConfig collection quality) = True"
| "is_config_query c = False"

fun is_document_write :: "call \<Rightarrow> bool" where
  "is_document_write (CreateDocument collection release) = True"
| "is_document_write (ReplaceDocument self release) = True"
| "is_document_write c = False"

fun is_document_call :: "call \<Rightarrow> bool" where
  "is_document_call (QueryDocuments collection commit) = True"
| "is_document_call c = is_document_write c"

text \<open>
  The six calls that \<open>publish\<close> makes up to and including the upload, in their order;
  \<open>take k\<close> of them is the history at the reply to the \<open>k\<close>-th, the two hashes being
  answered together at \<open>take 3\<close>.
\<close>

definition upload_calls :: "world \<Rightarrow> string \<Rightarrow> string \<Rightarrow> string \<Rightarrow> string \<Rightarrow> call list" where
  "upload_calls w commit quality name file =
     [Stat file, HashStream ''sha1'' file, HashStream ''sha256'' file,
      CreateContainerIfNotExists quality ''blob'',
      DoesBlobExist quality (commit @ ''/'' @ name),
      CreateBlockBlobFromLocalFile quality (commit @ ''/'' @ name) file (mime_lookup w file)
        ''max-age=31536000, public'']"

text \<open>
  \<open>appends P tr tr'\<close>: the calls \<open>tr'\<close> are the calls \<open>tr\<close> followed by calls that
  satisfy \<open>P\<close>. The three predicates after it describe the calls of \<open>getConfig\<close>, of
  \<open>update\<close> and of \<open>createOrUpdate\<close> with given arguments.
\<close>

definition appends :: "(call \<Rightarrow> bool) \<Rightarrow> call list \<Rightarrow> call list \<Rightarrow> bool" where
  "appends P tr tr' = (\<exists>new. tr' = tr @ new \<and> (\<forall>c \<in> set new. P c))"

definition config_call :: "string \<Rightarrow> call \<Rightarrow> bool" where
  "config_call quality c = (c = QueryConfig ''dbs/builds/colls/config'' quality)"

definition update_call :: "string \<Rightarrow> string \<Rightarrow> string \<Rightarrow> string \<Rightarrow> asset \<Rightarrow> bool \<Rightarrow> call \<Rightarrow> bool" where
  "update_call collection commit platform type asset isUpdate c =
     (c = QueryDocuments collection commit \<or>
      (\<exists>d. c = ReplaceDocument (release_self (updated_release platform type asset isUpdate d))
                 (updated_release platform type asset isUpdate d)))"

definition document_call ::
  "string \<Rightarrow> string \<Rightarrow> string \<Rightarrow> string \<Rightarrow> release \<Rightarrow> asset \<Rightarrow> bool \<Rightarrow> call \<Rightarrow> bool" where
  "document_call collection commit platform type release asset isUpdate c =
     (c = CreateDocument collection release \<or>
      update_call collection commit platform type asset isUpdate c)"

text \<open>
  What \<open>createOrUpdate\<close> may call next, by what it has called so far. \<open>read_one\<close> is
  the document that the last call has read: the history ends with the query of
  \<open>update\<close> and the database has answered it with exactly one document. After such a
  read the next call writes that document back, updated; otherwise the next call creates
  the release document or queries for it. \<open>follows P tr tr'\<close>: the calls \<open>tr'\<close> are the
  calls \<open>tr\<close> followed by calls of which each satisfies \<open>P\<close> at the history before it.
\<close>

definition read_one :: "world \<Rightarrow> string \<Rightarrow> string \<Rightarrow> call list \<Rightarrow> release option" where
  "read_one w collection commit h =
     (if h \<noteq> [] \<and> last h = QueryDocuments collection commit
      then (case queryDocuments_reply w h of Inr [d] \<Rightarrow> Some d | _ \<Rightarrow> None)
      else None)"

definition next_call ::
  "world \<Rightarrow> string \<Rightarrow> string \<Rightarrow> string \<Rightarrow> string \<Rightarrow> release \<Rightarrow> asset \<Rightarrow> bool
     \<Rightarrow> call list \<Rightarrow> call \<Rightarrow> bool" where
  "next_call w collection commit platform type release asset isUpdate h c =
     (case read_one w collection commit h of
        Some d \<Rightarrow>
          c = ReplaceDocument (release_self (updated_release platform type asset isUpdate d))
                (updated_release platform type asset isUpdate d)
      | None \<Rightarrow> c = CreateDocument collection release \<or> c = QueryDocuments collection commit)"

definition follows :: "(call list \<Rightarrow> call \<Rightarrow> bool) \<Rightarrow> call list \<Rightarrow> call list \<Rightarrow> bool" where
  "follows P tr tr' = (\<exists>new. tr' = tr @ new \<and> (\<forall>i < length new. P (tr @ take i new) (new ! i)))"

definition settled_step ::
  "world \<Rightarrow> string \<Rightarrow> string \<Rightarrow> (call list \<Rightarrow> call \<Rightarrow> bool) \<Rightarrow> nat \<times> call list \<Rightarrow> nat \<times> call list \<Rightarrow> bool"
where
  "settled_step w collection commit P s s' =
     (read_one w collection commit (snd s) = None \<longrightarrow>
        follows P (snd s) (snd s') \<and> read_one w collection commit (snd s') = None)"

text \<open>
  The invariant of a release document in the spec: at most one asset per
  (platform, type) pair.
\<close>

definition asset_key :: "asset \<Rightarrow> string \<times> string" where
  "asset_key a = (asset_platform a, asset_type a)"

definition one_per_platform_type :: "asset list \<Rightarrow> bool" where
  "one_per_platform_type assets = distinct (map asset_key assets)"

section \<open>Example worlds\<close>

text \<open>
  Concrete inputs on which the definitions are evaluated: a world in which every call
  succeeds and nothing exists yet, and variants of it in which the blob exists, the
  document exists, the database answers with a conflict or a connection reset, the file
  is missing, the arguments are too few, or the commit is not set.
\<close>

definition reset_error :: error where
  "reset_error = \<lparr>err_message = ''read ECONNRESET'', err_code = StrCode ''ECONNRESET''\<rparr>"

definition conflict_error :: error where
  "conflict_error = \<lparr>err_message = ''Conflict'', err_code = NumCode 409\<rparr>"

definition example_world :: world where
  "example_world =
     \<lparr>argv = [''node'', ''publish.js'', ''insider'', ''linux-x64'', ''archive'', ''app.tar.gz'',
              ''1.0.0'', ''true'', ''/tmp/app.tar.gz''],
      process_env = (\<lambda>name. if name = ''BUILD_SOURCEVERSION'' then Some ''abc123'' else None),
      date_now = 1700000000000,
      mime_lookup = (\<lambda>file. ''application/gzip''),
      minimist = (\<lambda>args. \<lparr>opts_positional = filter (\<lambda>a. a \<noteq> ''--upload-only'') args,
                            opts_upload_only = (''--upload-only'' \<in> set args)\<rparr>),
      stat_undefined = \<lparr>err_message = ''The path argument must be of type string'',
                         err_code = StrCode ''ERR_INVALID_ARG_TYPE''\<rparr>,
      stat_reply = (\<lambda>tr. Inr 42),
      hash_reply = (\<lambda>tr hashName. Inr hashName),
      createContainer_reply = (\<lambda>tr. None),
      doesBlobExist_reply = (\<lambda>tr. Inr False),
      createBlockBlob_reply = (\<lambda>tr. None),
      queryConfig_reply = (\<lambda>tr. (None, Some [])),
      createDocument_reply = (\<lambda>tr. None),
      queryDocuments_reply = (\<lambda>tr. Inr []),
      replaceDocument_reply = (\<lambda>tr. None)\<rparr>"

definition example_opts :: "bool \<Rightarrow> opts" where
  "example_opts upload_only =
     \<lparr>opts_positional = [''insider'', ''linux-x64'', ''archive'', ''app.tar.gz'', ''1.0.0'', ''true'',
                          ''/tmp/app.tar.gz''],
      opts_upload_only = upload_only\<rparr>"

definition example_publish :: "world \<Rightarrow> opts \<Rightarrow> (error + unit) \<times> call list" where
  "example_publish w opts =
     publish w ''abc123'' ''insider'' ''linux-x64'' ''archive'' ''app.tar.gz'' ''1.0.0'' ''true''
       ''/tmp/app.tar.gz'' opts []"

definition existing_blob_world :: world where
  "existing_blob_world = example_world\<lparr>doesBlobExist_reply := (\<lambda>tr. Inr True)\<rparr>"

definition example_asset :: "string \<Rightarrow> string \<Rightarrow> string \<Rightarrow> asset" where
  "example_asset platform type sha1hash =
     \<lparr>asset_platform = platform, asset_type = type, asset_url = ''https://cdn/insider/abc123/app'',
      asset_hash = sha1hash, asset_sha256hash = ''00'', asset_size = 42,
      asset_supportsFastUpdate = None\<rparr>"

definition stored_release :: release where
  "stored_release =
     \<lparr>release_self = Some ''dbs/builds/colls/insider/docs/abc123'', release_id = ''abc123'',
      release_timestamp = 1600000000000, release_version = ''1.0.0'', release_isReleased = False,
      release_sourceBranch = None, release_queuedBy = None,
      release_assets = [example_asset ''linux-x64'' ''archive'' ''aa'',
                        example_asset ''win32-x64'' ''setup'' ''bb''],
      release_updates = [(''win32-x64'', ''setup'')]\<rparr>"

definition reset_once_world :: world where
  "reset_once_world =
     example_world\<lparr>createDocument_reply := (\<lambda>tr. if length tr = 1 then Some reset_error else None)\<rparr>"

definition conflict_world :: world where
  "conflict_world =
     example_world\<lparr>createDocument_reply := (\<lambda>tr. Some conflict_error),
                    queryDocuments_reply := (\<lambda>tr. Inr [stored_release]),
                    replaceDocument_reply := (\<lambda>tr. Some conflict_error)\<rparr>"

definition existing_document_world :: world where
  "existing_document_world =
     example_world\<lparr>createDocument_reply := (\<lambda>tr. Some conflict_error),
                    queryDocuments_reply := (\<lambda>tr. Inr [stored_release])\<rparr>"

definition example_release :: release where
  "example_release =
     \<lparr>release_self = None, release_id = ''abc123'', release_timestamp = 1700000000000,
      release_version = ''1.0.0'', release_isReleased = False, release_sourceBranch = None,
      release_queuedBy = None,
      release_assets = [example_asset ''linux-x64'' ''archive'' ''cc''],
      release_updates = [(''linux-x64'', ''archive'')]\<rparr>"

definition example_createOrUpdate :: "world \<Rightarrow> (error + unit) \<times> call list" where
  "example_createOrUpdate w =
     createOrUpdate w ''abc123'' ''insider'' ''linux-x64'' ''archive'' example_release
       (example_asset ''linux-x64'' ''archive'' ''cc'') True []"

definition short_argv_world :: world where
  "short_argv_world = example_world\<lparr>argv := [''node'', ''publish.js'', ''insider'']\<rparr>"

definition missing_file_world :: world where
  "missing_file_world =
     example_world\<lparr>stat_reply := (\<lambda>tr. Inl \<lparr>err_message = ''ENOENT: no such file or directory'',
                                               err_code = StrCode ''ENOENT''\<rparr>)\<rparr>"

definition no_commit_world :: world where
  "no_commit_world = example_world\<lparr>process_env := (\<lambda>name. None)\<rparr>"

definition published_asset :: asset where
  "published_asset =
     make_asset example_world ''insider'' ''linux-x64'' ''archive'' ''abc123/app.tar.gz''
       ''sha1'' ''sha256'' 42"

definition upload_only_release :: release where
  "upload_only_release =
     make_release example_world ''abc123'' ''insider'' ''linux-x64'' ''archive'' ''1.0.0'' True
       published_asset (example_opts True)"

definition flaky :: "(nat, nat) async" where
  "flaky n = (if n < 2 then Inl reset_error else Inr (7 * n), Suc n)"

definition always_reset :: "(nat, nat) async" where
  "always_reset n = (Inl reset_error, Suc n)"

definition enoent_error :: error where
  "enoent_error = \<lparr>err_message = ''ENOENT: no such file or directory'', err_code = StrCode ''ENOENT''\<rparr>"

definition broken :: "(nat, nat) async" where
  "broken n = (Inl enoent_error, Suc n)"

definition linux_archive :: asset where
  "linux_archive = example_asset ''linux-x64'' ''archive'' ''cc''"

definition full_release :: release where
  "full_release =
     make_release example_world ''abc123'' ''insider'' ''linux-x64'' ''archive'' ''1.0.0'' True
       published_asset (example_opts False)"

definition six_updates_world :: world where
  "six_updates_world =
     example_world\<lparr>createDocument_reply := (\<lambda>tr. Some conflict_error),
                    queryDocuments_reply :=
                      (\<lambda>tr. if length tr \<le> 10 then Inl reset_error else Inr [stored_release])\<rparr>"

definition always_reset_world :: world where
  "always_reset_world = example_world\<lparr>createDocument_reply := (\<lambda>tr. Some reset_error)\<rparr>"

section \<open>Properties of retry\<close>

lemma logged_apply: "logged fn (log, s) = (case fn s of (r, s') \<Rightarrow> (r, (log @ [r], s')))"
  by (simp add: logged_def)

lemma retry_from_logged:
  "run \<le> RETRY_TIMES \<Longrightarrow> retry_from run (logged fn) (log, s) = (r, (log', s')) \<Longrightarrow>
   \<exists>new. log' = log @ new \<and> new \<noteq> [] \<and> length new \<le> RETRY_TIMES + 1 - run \<and>
     (\<forall>x \<in> set (butlast new). reset_outcome x) \<and>
     (if reset_outcome (last new)
      then length new = RETRY_TIMES + 1 - run \<and> r = Inl (new_Error ''Retried too many times'')
      else r = last new)"
proof (induction "RETRY_TIMES - run" arbitrary: run log s)
  case 0
  then have run: "run = RETRY_TIMES" by simp
  obtain r1 s1 where f: "fn s = (r1, s1)" by (cases "fn s")
  show ?case
  proof (cases "reset_outcome r1")
    case True
    then obtain e where e: "r1 = Inl e" "is_ECONNRESET e"
      by (auto simp: reset_outcome_def split: sum.splits)
    from "0.prems"(2) have "r = Inl (new_Error ''Retried too many times'') \<and> log' = log @ [r1]"
      using f e run by (simp add: logged_apply)
    then show ?thesis using True run by (intro exI[of _ "[r1]"]) simp
  next
    case False
    from "0.prems"(2) have "r = r1 \<and> log' = log @ [r1]"
      using f False run by (cases r1) (auto simp: logged_apply reset_outcome_def)
    then show ?thesis using False run by (intro exI[of _ "[r1]"]) simp
  qed
next
  case (Suc n)
  then have run: "run < RETRY_TIMES" "n = RETRY_TIMES - (run + 1)" "run + 1 \<le> RETRY_TIMES" by simp_all
  obtain r1 s1 where f: "fn s = (r1, s1)" by (cases "fn s")
  show ?case
  proof (cases "reset_outcome r1")
    case True
    then obtain e where e: "r1 = Inl e" "is_ECONNRESET e"
      by (auto simp: reset_outcome_def split: sum.splits)
    from Suc.prems(2) have "retry_from (run + 1) (logged fn) (log @ [r1], s1) = (r, (log', s'))"
      using f e run by (simp add: logged_apply)
    from Suc.hyps(1)[OF run(2) run(3) this] obtain new where new:
      "log' = (log @ [r1]) @ new" "new \<noteq> []" "length new \<le> RETRY_TIMES + 1 - (run + 1)"
      "\<forall>x \<in> set (butlast new). reset_outcome x"
      "if reset_outcome (last new)
       then length new = RETRY_TIMES + 1 - (run + 1) \<and> r = Inl (new_Error ''Retried too many times'')
       else r = last new" by blast
    show ?thesis using new True run
      by (intro exI[of _ "r1 # new"]) (auto simp: butlast_append split: if_splits)
  next
    case False
    from Suc.prems(2) have "r = r1 \<and> log' = log @ [r1]"
      using f False run by (cases r1) (auto simp: logged_apply reset_outcome_def)
    then show ?thesis using False run by (intro exI[of _ "[r1]"]) simp
  qed
qed

text \<open>
  Claim C3. Let \<open>log\<close> be the outcomes of the calls of \<open>fn\<close> that \<open>retry fn\<close> makes, in
  order, and \<open>r\<close> the outcome of \<open>retry\<close>. Then \<open>fn\<close> is called at least once and at most
  ten times; a call that fails with an error whose message does not contain
  \<open>ECONNRESET\<close> is the last call and its error is the outcome of \<open>retry\<close>; if every call
  fails with an \<open>ECONNRESET\<close> error there are exactly ten calls and \<open>retry\<close> fails with
  \<open>Retried too many times\<close>; a call that succeeds is the last call and its value is the
  outcome of \<open>retry\<close>. \<open>retry\<close> is a total function: it always returns.
\<close>

theorem retry_outcomes:
  "retry (logged fn) ([], s) = (r, (log, s')) \<Longrightarrow>
     log \<noteq> [] \<and> length log \<le> 10 \<and>
     (\<forall>i e. i < length log \<and> log ! i = Inl e \<and> \<not> is_ECONNRESET e
        \<longrightarrow> Suc i = length log \<and> r = Inl e) \<and>
     ((\<forall>x \<in> set log. \<exists>e. x = Inl e \<and> is_ECONNRESET e)
        \<longrightarrow> length log = 10 \<and> r = Inl (new_Error ''Retried too many times'')) \<and>
     (\<forall>i v. i < length log \<and> log ! i = Inr v \<longrightarrow> Suc i = length log \<and> r = Inr v)"
proof -
  assume a: "retry (logged fn) ([], s) = (r, (log, s'))"
  have "1 \<le> RETRY_TIMES" by (simp add: RETRY_TIMES_def)
  from retry_from_logged[OF this a[unfolded retry_def]]
  have ne: "log \<noteq> []" and len: "length log \<le> 10"
    and init: "\<forall>x \<in> set (butlast log). reset_outcome x"
    and fin: "if reset_outcome (last log)
       then length log = 10 \<and> r = Inl (new_Error ''Retried too many times'')
       else r = last log"
    by (auto simp: RETRY_TIMES_def)
  have early: "reset_outcome (log ! i)" if "i < length log" "Suc i \<noteq> length log" for i
  proof -
    from that have "i < length (butlast log)" by simp
    then have "butlast log ! i \<in> set (butlast log)" by (rule nth_mem)
    moreover have "butlast log ! i = log ! i" using \<open>i < length (butlast log)\<close> by (simp add: nth_butlast)
    ultimately show ?thesis using init by auto
  qed
  have lst: "last log = log ! i" if "Suc i = length log" for i
  proof -
    have "length log - 1 = i" using that by simp
    then show ?thesis using ne by (simp add: last_conv_nth)
  qed
  have c1: "Suc i = length log \<and> r = Inl e" if "i < length log" "log ! i = Inl e" "\<not> is_ECONNRESET e" for i e
  proof -
    have "Suc i = length log" using early[OF that(1)] that(2,3) by (auto simp: reset_outcome_def)
    then have "last log = Inl e" using lst that(2) by simp
    then show ?thesis using fin that(3) \<open>Suc i = length log\<close> by (auto simp: reset_outcome_def)
  qed
  have c3: "Suc i = length log \<and> r = Inr v" if "i < length log" "log ! i = Inr v" for i v
  proof -
    have "Suc i = length log" using early[OF that(1)] that(2) by (auto simp: reset_outcome_def)
    then have "last log = Inr v" using lst that(2) by simp
    then show ?thesis using fin \<open>Suc i = length log\<close> by (auto simp: reset_outcome_def)
  qed
  have c2: "length log = 10 \<and> r = Inl (new_Error ''Retried too many times'')"
    if "\<forall>x \<in> set log. \<exists>e. x = Inl e \<and> is_ECONNRESET e"
  proof -
    have "last log \<in> set log" using ne by simp
    with that have "reset_outcome (last log)" by (auto simp: reset_outcome_def)
    with fin show ?thesis by simp
  qed
  show ?thesis using ne len c1 c2 c3 by blast
qed

text \<open>
  Claim C3, on three functions: one that fails twice with a connection reset and then
  succeeds, one that always fails with a connection reset, and one that fails with
  another error.
\<close>

theorem retry_outcomes_witness:
  "retry (logged flaky) ([], 0) = (Inr 14, ([Inl reset_error, Inl reset_error, Inr 14], 3)) \<and>
   retry (logged always_reset) ([], 0) =
     (Inl (new_Error ''Retried too many times''), (replicate 10 (Inl reset_error), 10)) \<and>
   retry (logged broken) ([], 0) = (Inl enoent_error, ([Inl enoent_error], 1)) \<and>
   is_ECONNRESET reset_error \<and> \<not> is_ECONNRESET enoent_error \<and>
   length (replicate 10 (Inl reset_error :: error + nat)) = 10"
proof -
  have a: "retry (logged flaky) ([], 0) = (Inr 14, ([Inl reset_error, Inl reset_error, Inr 14], 3))"
    by code_simp
  have b: "retry (logged always_reset) ([], 0) =
     (Inl (new_Error ''Retried too many times''), (replicate 10 (Inl reset_error), 10))"
    by code_simp
  have c: "retry (logged broken) ([], 0) = (Inl enoent_error, ([Inl enoent_error], 1))"
    by code_simp
  have reset: "is_ECONNRESET reset_error" by code_simp
  have other: "\<not> is_ECONNRESET enoent_error" by code_simp
  have "\<forall>x \<in> set (replicate 10 (Inl reset_error :: error + nat)). \<exists>e. x = Inl e \<and> is_ECONNRESET e"
    using reset by simp
  with retry_outcomes[OF b] have ten: "length (replicate 10 (Inl reset_error :: error + nat)) = 10"
    by blast
  from retry_outcomes[OF a]
  have "\<forall>i v. i < length [Inl reset_error, Inl reset_error, Inr (14::nat)] \<and>
           [Inl reset_error, Inl reset_error, Inr (14::nat)] ! i = Inr v \<longrightarrow>
           Suc i = length [Inl reset_error, Inl reset_error, Inr (14::nat)] \<and>
           (Inr 14 :: error + nat) = Inr v"
    by (elim conjE)
  then have last_ok: "Suc 2 = length [Inl reset_error, Inl reset_error, Inr (14::nat)]"
    by simp
  from retry_outcomes[OF c]
  have "\<forall>i e. i < length [Inl enoent_error :: error + nat] \<and>
           [Inl enoent_error :: error + nat] ! i = Inl e \<and> \<not> is_ECONNRESET e \<longrightarrow>
           Suc i = length [Inl enoent_error :: error + nat] \<and>
           (Inl enoent_error :: error + nat) = Inl e"
    by (elim conjE)
  then have rethrown: "Suc 0 = length [Inl enoent_error :: error + nat]"
    by simp
  show ?thesis using a b c reset other ten by simp
qed

lemma retry_from_rel:
  assumes refl: "\<And>s. R s s"
    and trans: "\<And>a b c. R a b \<Longrightarrow> R b c \<Longrightarrow> R a c"
  shows "(\<And>s. R s (snd (fn s))) \<Longrightarrow> R s (snd (retry_from run fn s))"
proof (induction run fn s rule: retry_from.induct)
  case (1 run fn s)
  note step = "1.prems"
  show ?case
  proof (cases "run \<le> RETRY_TIMES")
    case False
    then show ?thesis using refl by (simp add: retry_from.simps[of run fn s])
  next
    case True
    obtain r s1 where f: "fn s = (r, s1)" by (cases "fn s")
    have s1: "R s s1" using step[of s] f by simp
    show ?thesis
    proof (cases r)
      case (Inr v)
      then show ?thesis using True f s1 by (simp add: retry_from.simps[of run fn s])
    next
      case (Inl err)
      show ?thesis
      proof (cases "is_ECONNRESET err")
        case False
        then show ?thesis using True f s1 Inl by (simp add: retry_from.simps[of run fn s])
      next
        case reset: True
        have "R s1 (snd (retry_from (run + 1) fn s1))"
          using "1.IH"[OF True f[symmetric] Inl _ step] reset by simp
        then have "R s (snd (retry_from (run + 1) fn s1))" using s1 trans by blast
        then show ?thesis using True f Inl reset
          by (simp add: retry_from.simps[of run fn s])
      qed
    qed
  qed
qed

lemma retry_first:
  "retry fn s =
     (case fn s of
        (Inr v, s') \<Rightarrow> (Inr v, s')
      | (Inl err, s') \<Rightarrow>
          if \<not> is_ECONNRESET err then (Inl err, s') else retry_from 2 fn s')"
  by (simp add: retry_def retry_from.simps[of 1 fn s] RETRY_TIMES_def
      split: prod.splits sum.splits)

lemma retry_rel:
  assumes refl: "\<And>s. R s s"
    and trans: "\<And>a b c. R a b \<Longrightarrow> R b c \<Longrightarrow> R a c"
    and step: "\<And>s. R s (snd (fn s))"
  shows "R (snd (fn s)) (snd (retry fn s))"
proof -
  obtain r s1 where f: "fn s = (r, s1)" by (cases "fn s")
  have "R s1 (snd (retry_from 2 fn s1))" by (rule retry_from_rel[where R = R, OF refl trans step])
  then show ?thesis using f refl by (cases r) (simp_all add: retry_first)
qed

lemma retry_from_logged_result:
  "fst (retry_from run (logged fn) (log, s)) = fst (retry_from run fn s) \<and>
   snd (snd (retry_from run (logged fn) (log, s))) = snd (retry_from run fn s)"
proof (induction "RETRY_TIMES + 1 - run" arbitrary: run log s)
  case 0
  then have "\<not> run \<le> RETRY_TIMES" by simp
  then show ?case by (simp add: retry_from.simps[of run])
next
  case (Suc k)
  then have run: "run \<le> RETRY_TIMES" "k = RETRY_TIMES + 1 - (run + 1)" by simp_all
  obtain r1 s1 where f: "fn s = (r1, s1)" by (cases "fn s")
  show ?case
  proof (cases r1)
    case (Inr v)
    then show ?thesis using run f
      by (simp add: retry_from.simps[of run "logged fn"] retry_from.simps[of run fn] logged_apply)
  next
    case (Inl err)
    show ?thesis
    proof (cases "is_ECONNRESET err")
      case False
      then show ?thesis using run f Inl
        by (simp add: retry_from.simps[of run "logged fn"] retry_from.simps[of run fn] logged_apply)
    next
      case True
      from Suc.hyps(1)[OF run(2), of "log @ [r1]" s1]
      show ?thesis using run f Inl True
        by (simp add: retry_from.simps[of run "logged fn"] retry_from.simps[of run fn] logged_apply)
    qed
  qed
qed

lemma retry_from_step:
  assumes "run \<le> RETRY_TIMES" "fn s = (Inl err, s')"
  shows "retry_from run fn s =
           (if \<not> is_ECONNRESET err then (Inl err, s')
            else if run < RETRY_TIMES then retry_from (run + 1) fn s'
            else (Inl (new_Error ''Retried too many times''), s'))"
proof (cases "run < RETRY_TIMES")
  case True
  then show ?thesis using assms by (simp add: retry_from.simps[of run fn s])
next
  case False
  then have "\<not> run + 1 \<le> RETRY_TIMES" by simp
  then have "retry_from (run + 1) fn s' = (Inl (new_Error ''Retried too many times''), s')"
    by (simp add: retry_from.simps[of "run + 1" fn s'])
  then show ?thesis using assms False by (simp add: retry_from.simps[of run fn s])
qed

lemma retry_logged_outcomes:
  assumes a: "retry (logged fn) ([], s) = (r, (log, s'))"
  shows "retry fn s = (r, s')"
    and "log \<noteq> []" and "length log \<le> 10"
    and "\<forall>i e. i < length log \<and> log ! i = Inl e \<and> \<not> is_ECONNRESET e \<longrightarrow>
           Suc i = length log \<and> r = Inl e"
    and "\<forall>i e. i < length log \<and> log ! i = Inl e \<and> is_ECONNRESET e \<longrightarrow>
           Suc i < length log \<or>
           (Suc i = 10 \<and> length log = 10 \<and> r = Inl (new_Error ''Retried too many times''))"
    and "\<forall>i v. i < length log \<and> log ! i = Inr v \<longrightarrow> Suc i = length log \<and> r = Inr v"
proof -
  from retry_from_logged_result[of 1 fn "[]" s] a
  show "retry fn s = (r, s')"
    by (cases "retry_from 1 fn s") (simp add: retry_def)
  have "1 \<le> RETRY_TIMES" by (simp add: RETRY_TIMES_def)
  from retry_from_logged[OF this a[unfolded retry_def]]
  have ne: "log \<noteq> []" and len: "length log \<le> 10"
    and init: "\<forall>x \<in> set (butlast log). reset_outcome x"
    and fin: "if reset_outcome (last log)
       then length log = 10 \<and> r = Inl (new_Error ''Retried too many times'')
       else r = last log"
    by (auto simp: RETRY_TIMES_def)
  show "log \<noteq> []" by (rule ne)
  show "length log \<le> 10" by (rule len)
  have early: "reset_outcome (log ! i)" if "i < length log" "Suc i \<noteq> length log" for i
  proof -
    from that have lt: "i < length (butlast log)" by simp
    then have "butlast log ! i \<in> set (butlast log)" by (rule nth_mem)
    moreover have "butlast log ! i = log ! i" using lt by (simp add: nth_butlast)
    ultimately show ?thesis using init by auto
  qed
  have lst: "last log = log ! i" if "Suc i = length log" for i
  proof -
    have "length log - 1 = i" using that by simp
    then show ?thesis using ne by (simp add: last_conv_nth)
  qed
  show "\<forall>i e. i < length log \<and> log ! i = Inl e \<and> \<not> is_ECONNRESET e \<longrightarrow>
           Suc i = length log \<and> r = Inl e"
  proof (intro allI impI)
    fix i e assume h: "i < length log \<and> log ! i = Inl e \<and> \<not> is_ECONNRESET e"
    have s: "Suc i = length log" using early[of i] h by (auto simp: reset_outcome_def)
    then have "last log = Inl e" using lst h by simp
    then show "Suc i = length log \<and> r = Inl e" using fin h s by (auto simp: reset_outcome_def)
  qed
  show "\<forall>i e. i < length log \<and> log ! i = Inl e \<and> is_ECONNRESET e \<longrightarrow>
           Suc i < length log \<or>
           (Suc i = 10 \<and> length log = 10 \<and> r = Inl (new_Error ''Retried too many times''))"
  proof (intro allI impI)
    fix i e assume h: "i < length log \<and> log ! i = Inl e \<and> is_ECONNRESET e"
    show "Suc i < length log \<or>
           (Suc i = 10 \<and> length log = 10 \<and> r = Inl (new_Error ''Retried too many times''))"
    proof (cases "Suc i < length log")
      case True then show ?thesis by simp
    next
      case False
      then have s: "Suc i = length log" using h by simp
      then have "last log = Inl e" using lst h by simp
      then have "reset_outcome (last log)" using h by (simp add: reset_outcome_def)
      with fin s show ?thesis by simp
    qed
  qed
  show "\<forall>i v. i < length log \<and> log ! i = Inr v \<longrightarrow> Suc i = length log \<and> r = Inr v"
  proof (intro allI impI)
    fix i v assume h: "i < length log \<and> log ! i = Inr v"
    have s: "Suc i = length log" using early[of i] h by (auto simp: reset_outcome_def)
    then have "last log = Inr v" using lst h by simp
    then show "Suc i = length log \<and> r = Inr v" using fin s by (auto simp: reset_outcome_def)
  qed
qed

section \<open>The calls of getConfig, update and createOrUpdate\<close>

lemma appends_refl: "appends P tr tr"
  by (simp add: appends_def)

lemma appends_trans: "appends P a b \<Longrightarrow> appends P b c \<Longrightarrow> appends P a c"
  unfolding appends_def by (metis Un_iff append.assoc set_append)

lemma appends_one: "P c \<Longrightarrow> appends P tr (tr @ [c])"
  by (simp add: appends_def)

lemma getConfig_attempt_trace:
  "snd (getConfig_attempt w quality tr) = tr @ [QueryConfig ''dbs/builds/colls/config'' quality]"
  by (simp add: getConfig_attempt_def Let_def split: prod.splits option.splits)

lemma getConfig_trace:
  "\<exists>new. snd (getConfig w quality tr) = tr @ QueryConfig ''dbs/builds/colls/config'' quality # new
      \<and> (\<forall>c \<in> set new. config_call quality c)"
proof -
  have "appends (config_call quality) (snd (getConfig_attempt w quality tr))
          (snd (retry (getConfig_attempt w quality) tr))"
  proof (rule retry_rel)
    show "appends (config_call quality) s s" for s by (rule appends_refl)
    show "appends (config_call quality) a b \<Longrightarrow> appends (config_call quality) b c
            \<Longrightarrow> appends (config_call quality) a c" for a b c by (rule appends_trans)
    show "appends (config_call quality) s (snd (getConfig_attempt w quality s))" for s
      by (simp add: getConfig_attempt_trace appends_one config_call_def)
  qed
  then show ?thesis by (simp add: getConfig_def getConfig_attempt_trace appends_def)
qed

lemma update_trace:
  "\<exists>new. snd (snd (update w collection commit platform type asset isUpdate (n, tr))) =
            tr @ QueryDocuments collection commit # new
      \<and> (\<forall>c \<in> set new. update_call collection commit platform type asset isUpdate c)"
proof (induction w collection commit platform type asset isUpdate "(n, tr)" arbitrary: n tr
       rule: update.induct)
  case (1 w collection commit platform type asset isUpdate updateTries tr)
  let ?tr1 = "tr @ [QueryDocuments collection commit]"
  show ?case
  proof (cases "queryDocuments_reply w ?tr1")
    case (Inl err)
    then show ?thesis by (simp add: Let_def)
  next
    case (Inr results)
    show ?thesis
    proof (cases "length results \<noteq> 1")
      case True
      then show ?thesis using Inr by (simp add: Let_def)
    next
      case one: False
      let ?rel = "updated_release platform type asset isUpdate (results ! 0)"
      let ?tr2 = "?tr1 @ [ReplaceDocument (release_self ?rel) ?rel]"
      have rep: "update_call collection commit platform type asset isUpdate
                   (ReplaceDocument (release_self ?rel) ?rel)"
        unfolding update_call_def by blast
      show ?thesis
      proof (cases "replaceDocument_reply w ?tr2")
        case None
        then show ?thesis using Inr one rep by (simp add: Let_def)
      next
        case (Some err)
        show ?thesis
        proof (cases "err_code err = NumCode 409 \<and> updateTries + 1 < 5")
          case False
          then show ?thesis using Inr one rep Some by (auto simp add: Let_def)
        next
          case again: True
          from "1.hyps"[OF refl refl Inr _ refl refl Some again] one
          obtain new where new:
            "snd (snd (update w collection commit platform type asset isUpdate (updateTries + 1, ?tr2)))
               = ?tr2 @ QueryDocuments collection commit # new"
            "\<forall>c \<in> set new. update_call collection commit platform type asset isUpdate c"
            by auto
          have q: "update_call collection commit platform type asset isUpdate
                     (QueryDocuments collection commit)"
            by (simp add: update_call_def)
          show ?thesis using Inr one Some again new rep q
            by (simp add: Let_def)
        qed
      qed
    qed
  qed
qed

lemma createOrUpdate_attempt_trace:
  "\<exists>new. snd (snd (createOrUpdate_attempt w collection commit platform type release asset isUpdate
                       (n, tr))) = tr @ CreateDocument collection release # new
      \<and> (\<forall>c \<in> set new. update_call collection commit platform type asset isUpdate c)"
proof (cases "createDocument_reply w (tr @ [CreateDocument collection release])")
  case None
  then show ?thesis by (simp add: createOrUpdate_attempt_def Let_def)
next
  case (Some err)
  show ?thesis
  proof (cases "err_code err = NumCode 409")
    case False
    then show ?thesis using Some by (simp add: createOrUpdate_attempt_def Let_def)
  next
    case True
    obtain new where
      "snd (snd (update w collection commit platform type asset isUpdate
                   (n, tr @ [CreateDocument collection release]))) =
         (tr @ [CreateDocument collection release]) @ QueryDocuments collection commit # new"
      "\<forall>c \<in> set new. update_call collection commit platform type asset isUpdate c"
      using update_trace by blast
    then show ?thesis using Some True
      by (simp add: createOrUpdate_attempt_def Let_def update_call_def)
  qed
qed

lemma createOrUpdate_trace:
  "\<exists>new. snd (createOrUpdate w commit quality platform type release asset isUpdate tr) =
            tr @ CreateDocument (''dbs/builds/colls/'' @ quality) release # new
      \<and> (\<forall>c \<in> set new. document_call (''dbs/builds/colls/'' @ quality) commit platform type
                             release asset isUpdate c)"
proof -
  let ?coll = "''dbs/builds/colls/'' @ quality"
  let ?P = "document_call ?coll commit platform type release asset isUpdate"
  let ?fn = "createOrUpdate_attempt w ?coll commit platform type release asset isUpdate"
  let ?R = "\<lambda>s s'. appends ?P (snd s) (snd s')"
  have step: "?R s (snd (?fn s))" for s
  proof -
    obtain n t where s: "s = (n, t)" by (cases s)
    obtain new where "snd (snd (?fn (n, t))) = t @ CreateDocument ?coll release # new"
      "\<forall>c \<in> set new. update_call ?coll commit platform type asset isUpdate c"
      using createOrUpdate_attempt_trace by blast
    then show ?thesis unfolding s appends_def
      by (intro exI[of _ "CreateDocument ?coll release # new"]) (simp add: document_call_def)
  qed
  have "?R (snd (?fn (0, tr))) (snd (retry ?fn (0, tr)))"
  proof (rule retry_rel[where R = ?R])
    show "?R s s" for s :: "nat \<times> call list" by (rule appends_refl)
    show "?R a b \<Longrightarrow> ?R b c \<Longrightarrow> ?R a c" for a b c :: "nat \<times> call list"
      by (rule appends_trans)
    show "?R s (snd (?fn s))" for s by (rule step)
  qed
  then obtain more where more: "snd (snd (retry ?fn (0, tr))) = snd (snd (?fn (0, tr))) @ more"
    "\<forall>c \<in> set more. ?P c" unfolding appends_def by blast
  obtain new where new: "snd (snd (?fn (0, tr))) = tr @ CreateDocument ?coll release # new"
      "\<forall>c \<in> set new. update_call ?coll commit platform type asset isUpdate c"
    using createOrUpdate_attempt_trace by blast
  have "snd (createOrUpdate w commit quality platform type release asset isUpdate tr)
          = snd (snd (retry ?fn (0, tr)))"
    by (simp add: createOrUpdate_def Let_def split: prod.splits)
  then have "snd (createOrUpdate w commit quality platform type release asset isUpdate tr)
          = tr @ CreateDocument ?coll release # (new @ more)"
    using more new by simp
  moreover have "\<forall>c \<in> set (new @ more). ?P c" using more new by (auto simp: document_call_def)
  ultimately show ?thesis by blast
qed

lemma update_runs:
  "\<exists>new. snd (snd (update w collection commit platform type asset isUpdate (n, tr))) = tr @ new \<and>
     n < fst (snd (update w collection commit platform type asset isUpdate (n, tr))) \<and>
     fst (snd (update w collection commit platform type asset isUpdate (n, tr))) \<le> max (n + 1) 5 \<and>
     length (filter (\<lambda>c. c = QueryDocuments collection commit) new) =
       fst (snd (update w collection commit platform type asset isUpdate (n, tr))) - n"
proof (induction w collection commit platform type asset isUpdate "(n, tr)" arbitrary: n tr
       rule: update.induct)
  case (1 w collection commit platform type asset isUpdate updateTries tr)
  let ?q = "QueryDocuments collection commit"
  let ?tr1 = "tr @ [?q]"
  show ?case
  proof (cases "queryDocuments_reply w ?tr1")
    case (Inl err)
    then show ?thesis by (simp add: Let_def)
  next
    case (Inr results)
    show ?thesis
    proof (cases "length results \<noteq> 1")
      case True
      then show ?thesis using Inr by (simp add: Let_def)
    next
      case one: False
      let ?rel = "updated_release platform type asset isUpdate (results ! 0)"
      let ?tr2 = "?tr1 @ [ReplaceDocument (release_self ?rel) ?rel]"
      show ?thesis
      proof (cases "replaceDocument_reply w ?tr2")
        case None
        then show ?thesis using Inr one by (simp add: Let_def)
      next
        case (Some err)
        show ?thesis
        proof (cases "err_code err = NumCode 409 \<and> updateTries + 1 < 5")
          case False
          then show ?thesis using Inr one Some by (auto simp add: Let_def)
        next
          case again: True
          let ?u = "update w collection commit platform type asset isUpdate (updateTries + 1, ?tr2)"
          from "1.hyps"[OF refl refl Inr _ refl refl Some again] one
          obtain new where new: "snd (snd ?u) = ?tr2 @ new"
            "updateTries + 1 < fst (snd ?u)" "fst (snd ?u) \<le> max (updateTries + 1 + 1) 5"
            "length (filter (\<lambda>c. c = ?q) new) = fst (snd ?u) - (updateTries + 1)"
            by auto
          have eq: "update w collection commit platform type asset isUpdate (updateTries, tr) = ?u"
            using Inr one Some again by (subst update.simps) (simp add: Let_def)
          have "snd (snd ?u) = tr @ (?q # ReplaceDocument (release_self ?rel) ?rel # new)"
            using new(1) by simp
          moreover have "length (filter (\<lambda>c. c = ?q) (?q # ReplaceDocument (release_self ?rel) ?rel # new))
                = fst (snd ?u) - updateTries"
            using new(2,4) by simp
          moreover have "updateTries < fst (snd ?u)" "fst (snd ?u) \<le> max (updateTries + 1) 5"
            using new(2,3) again by simp_all
          ultimately show ?thesis unfolding eq by blast
        qed
      qed
    qed
  qed
qed

lemma createOrUpdate_first:
  "createOrUpdate w commit quality platform type release asset isUpdate tr =
     (case createOrUpdate_attempt w (''dbs/builds/colls/'' @ quality) commit platform type release
             asset isUpdate (0, tr) of
        (Inr v, (n, tr')) \<Rightarrow> (Inr v, tr')
      | (Inl err, (n, tr')) \<Rightarrow>
          if \<not> is_ECONNRESET err then (Inl err, tr')
          else (case retry_from 2 (createOrUpdate_attempt w (''dbs/builds/colls/'' @ quality) commit
                                     platform type release asset isUpdate) (n, tr') of
                  (r, (n'', tr'')) \<Rightarrow> (r, tr'')))"
  by (simp add: createOrUpdate_def retry_first Let_def split: prod.splits sum.splits)

lemma updated_release_assets:
  "release_assets (updated_release platform type asset isUpdate d) =
     replace_asset platform type asset (release_assets d)"
  by (simp add: updated_release_def Let_def)

lemma updated_release_updates:
  "release_updates (updated_release platform type asset isUpdate d) =
     (if isUpdate then js_assign platform type (release_updates d) else release_updates d)"
  by (simp add: updated_release_def Let_def)

lemma make_asset_key:
  "asset_platform (make_asset w quality platform type blobName sha1hash sha256hash file_size) = platform \<and>
   asset_type (make_asset w quality platform type blobName sha1hash sha256hash file_size) = type"
  by (simp add: make_asset_def Let_def)

lemma follows_refl: "follows P tr tr"
  by (simp add: follows_def)

lemma follows_one: "P tr c \<Longrightarrow> follows P tr (tr @ [c])"
  by (simp add: follows_def)

lemma follows_trans:
  assumes "follows P a b" "follows P b c"
  shows "follows P a c"
proof -
  from assms obtain n1 n2 where n1: "b = a @ n1" "\<forall>i < length n1. P (a @ take i n1) (n1 ! i)"
    and n2: "c = b @ n2" "\<forall>i < length n2. P (b @ take i n2) (n2 ! i)"
    unfolding follows_def by blast
  have "P (a @ take i (n1 @ n2)) ((n1 @ n2) ! i)" if "i < length (n1 @ n2)" for i
  proof (cases "i < length n1")
    case True
    then show ?thesis using n1(2) by (simp add: nth_append)
  next
    case False
    then have "i - length n1 < length n2" using that by simp
    with n2(2) have "P (b @ take (i - length n1) n2) (n2 ! (i - length n1))" by blast
    then show ?thesis using False n1(1) by (simp add: nth_append)
  qed
  then show ?thesis unfolding follows_def using n1(1) n2(1) by (intro exI[of _ "n1 @ n2"]) simp
qed

lemma follows_nth:
  assumes "follows P tr tr'" "length tr \<le> i" "i < length tr'"
  shows "P (take i tr') (tr' ! i)"
proof -
  from assms(1) obtain new where new: "tr' = tr @ new" "\<forall>j < length new. P (tr @ take j new) (new ! j)"
    unfolding follows_def by blast
  have "i - length tr < length new" using assms(2,3) new(1) by simp
  with new(2) have "P (tr @ take (i - length tr) new) (new ! (i - length tr))" by blast
  then show ?thesis using assms(2) new(1) by (simp add: nth_append)
qed

lemma follows_prefix: "follows P tr tr' \<Longrightarrow> length tr \<le> length tr' \<and> take (length tr) tr' = tr"
  by (auto simp: follows_def)

lemma read_one_snoc:
  "read_one w collection commit (tr @ [c]) =
     (if c = QueryDocuments collection commit
      then (case queryDocuments_reply w (tr @ [c]) of Inr [d] \<Rightarrow> Some d | _ \<Rightarrow> None)
      else None)"
  by (simp add: read_one_def)

lemma update_follows:
  "follows (next_call w collection commit platform type release asset isUpdate)
     (tr @ [QueryDocuments collection commit])
     (snd (snd (update w collection commit platform type asset isUpdate (n, tr)))) \<and>
   read_one w collection commit
     (snd (snd (update w collection commit platform type asset isUpdate (n, tr)))) = None"
proof (induction w collection commit platform type asset isUpdate "(n, tr)" arbitrary: n tr
       rule: update.induct)
  case (1 w collection commit platform type asset isUpdate updateTries tr)
  let ?P = "next_call w collection commit platform type release asset isUpdate"
  let ?q = "QueryDocuments collection commit"
  let ?tr1 = "tr @ [?q]"
  show ?case
  proof (cases "queryDocuments_reply w ?tr1")
    case (Inl err)
    then show ?thesis by (simp add: Let_def follows_refl read_one_snoc)
  next
    case (Inr results)
    show ?thesis
    proof (cases "length results \<noteq> 1")
      case True
      then have "read_one w collection commit ?tr1 = None"
        using Inr by (cases results; cases "tl results") (auto simp: read_one_snoc)
      then show ?thesis using Inr True by (simp add: Let_def follows_refl)
    next
      case one: False
      then have d: "results = [results ! 0]" by (cases results) auto
      let ?rel = "updated_release platform type asset isUpdate (results ! 0)"
      let ?tr2 = "?tr1 @ [ReplaceDocument (release_self ?rel) ?rel]"
      have read: "read_one w collection commit ?tr1 = Some (results ! 0)"
        using Inr one by (cases results; cases "tl results") (auto simp: read_one_snoc)
      have "?P ?tr1 (ReplaceDocument (release_self ?rel) ?rel)"
        using read by (simp add: next_call_def)
      then have f1: "follows ?P ?tr1 ?tr2" by (rule follows_one)
      have none2: "read_one w collection commit ?tr2 = None"
        by (simp add: read_one_def)
      show ?thesis
      proof (cases "replaceDocument_reply w ?tr2")
        case None
        then show ?thesis using Inr one f1 none2 by (simp add: Let_def)
      next
        case (Some err)
        show ?thesis
        proof (cases "err_code err = NumCode 409 \<and> updateTries + 1 < 5")
          case False
          then show ?thesis using Inr one Some f1 none2 by (auto simp add: Let_def)
        next
          case again: True
          let ?u = "update w collection commit platform type asset isUpdate (updateTries + 1, ?tr2)"
          from "1.hyps"[OF refl refl Inr _ refl refl Some again] one
          have ih: "follows ?P (?tr2 @ [?q]) (snd (snd ?u))"
            "read_one w collection commit (snd (snd ?u)) = None"
            by auto
          have eq: "update w collection commit platform type asset isUpdate (updateTries, tr) = ?u"
            using Inr one Some again by (subst update.simps) (simp add: Let_def)
          have "?P ?tr2 ?q" using none2 by (simp add: next_call_def)
          then have "follows ?P ?tr2 (?tr2 @ [?q])" by (rule follows_one)
          with f1 ih(1) have "follows ?P ?tr1 (snd (snd ?u))"
            by (blast intro: follows_trans)
          then show ?thesis unfolding eq using ih(2) by blast
        qed
      qed
    qed
  qed
qed

lemma createOrUpdate_attempt_follows:
  assumes start: "read_one w collection commit tr = None"
  shows "follows (next_call w collection commit platform type release asset isUpdate) tr
           (snd (snd (createOrUpdate_attempt w collection commit platform type release asset isUpdate
                        (n, tr)))) \<and>
         read_one w collection commit
           (snd (snd (createOrUpdate_attempt w collection commit platform type release asset isUpdate
                        (n, tr)))) = None"
proof -
  let ?P = "next_call w collection commit platform type release asset isUpdate"
  let ?c = "CreateDocument collection release"
  let ?q = "QueryDocuments collection commit"
  have "?P tr ?c" using start by (simp add: next_call_def)
  then have f1: "follows ?P tr (tr @ [?c])" by (rule follows_one)
  have none1: "read_one w collection commit (tr @ [?c]) = None" by (simp add: read_one_snoc)
  show ?thesis
  proof (cases "createDocument_reply w (tr @ [?c])")
    case None
    then show ?thesis using f1 none1 by (simp add: createOrUpdate_attempt_def Let_def)
  next
    case (Some err)
    show ?thesis
    proof (cases "err_code err = NumCode 409")
      case False
      then show ?thesis using Some f1 none1 by (simp add: createOrUpdate_attempt_def Let_def)
    next
      case True
      let ?u = "update w collection commit platform type asset isUpdate (n, tr @ [?c])"
      have eq: "createOrUpdate_attempt w collection commit platform type release asset isUpdate (n, tr) = ?u"
        using Some True by (simp add: createOrUpdate_attempt_def Let_def del: update.simps)
      have "?P (tr @ [?c]) ?q" using none1 by (simp add: next_call_def)
      then have f2: "follows ?P (tr @ [?c]) ((tr @ [?c]) @ [?q])" by (rule follows_one)
      from update_follows[of w collection commit platform type release asset isUpdate "tr @ [?c]" n]
      have u: "follows ?P ((tr @ [?c]) @ [?q]) (snd (snd ?u))"
        "read_one w collection commit (snd (snd ?u)) = None"
        by simp_all
      from f1 f2 u(1) have "follows ?P tr (snd (snd ?u))" by (blast intro: follows_trans)
      then show ?thesis unfolding eq using u(2) by blast
    qed
  qed
qed

lemma createOrUpdate_follows:
  assumes start: "read_one w (''dbs/builds/colls/'' @ quality) commit tr = None"
  shows "follows (next_call w (''dbs/builds/colls/'' @ quality) commit platform type release asset isUpdate)
           tr (snd (createOrUpdate w commit quality platform type release asset isUpdate tr)) \<and>
         read_one w (''dbs/builds/colls/'' @ quality) commit
           (snd (createOrUpdate w commit quality platform type release asset isUpdate tr)) = None"
proof -
  let ?coll = "''dbs/builds/colls/'' @ quality"
  let ?P = "next_call w ?coll commit platform type release asset isUpdate"
  let ?fn = "createOrUpdate_attempt w ?coll commit platform type release asset isUpdate"
  have "settled_step w ?coll commit ?P (0, tr) (snd (retry_from 1 ?fn (0, tr)))"
  proof (rule retry_from_rel[where R = "settled_step w ?coll commit ?P"])
    show "settled_step w ?coll commit ?P s s" for s
      by (simp add: settled_step_def follows_refl)
    show "settled_step w ?coll commit ?P a b \<Longrightarrow> settled_step w ?coll commit ?P b c
            \<Longrightarrow> settled_step w ?coll commit ?P a c" for a b c
      unfolding settled_step_def by (blast intro: follows_trans)
    show "settled_step w ?coll commit ?P s (snd (?fn s))" for s
      using createOrUpdate_attempt_follows[of w ?coll commit "snd s" platform type release asset isUpdate "fst s"]
      by (simp add: settled_step_def)
  qed
  moreover have "snd (createOrUpdate w commit quality platform type release asset isUpdate tr)
          = snd (snd (retry_from 1 ?fn (0, tr)))"
    by (simp add: createOrUpdate_def retry_def Let_def split: prod.splits)
  ultimately show ?thesis using start by (simp add: settled_step_def)
qed

lemma next_call_facts:
  assumes f: "follows (next_call w collection commit platform type release asset isUpdate) tr0 tr"
    and settled: "read_one w collection commit tr = None"
  shows "\<forall>i s written. length tr0 \<le> i \<and> i < length tr \<and> tr ! i = ReplaceDocument s written \<longrightarrow>
           (\<exists>d. queryDocuments_reply w (take i tr) = Inr [d] \<and> 0 < i \<and>
                tr ! (i - 1) = QueryDocuments collection commit \<and>
                written = updated_release platform type asset isUpdate d \<and> s = release_self written)"
    and "\<forall>i d. length tr0 \<le> Suc i \<and> i < length tr \<and> tr ! i = QueryDocuments collection commit \<and>
               queryDocuments_reply w (take (Suc i) tr) = Inr [d] \<longrightarrow>
           Suc i < length tr \<and>
           tr ! Suc i = ReplaceDocument (release_self (updated_release platform type asset isUpdate d))
                          (updated_release platform type asset isUpdate d)"
    and "\<forall>i coll rel. length tr0 \<le> i \<and> i < length tr \<and> tr ! i = CreateDocument coll rel \<longrightarrow>
           coll = collection \<and> rel = release"
proof -
  let ?P = "next_call w collection commit platform type release asset isUpdate"
  have nth: "?P (take i tr) (tr ! i)" if "length tr0 \<le> i" "i < length tr" for i
    using follows_nth[OF f that] .
  show "\<forall>i s written. length tr0 \<le> i \<and> i < length tr \<and> tr ! i = ReplaceDocument s written \<longrightarrow>
           (\<exists>d. queryDocuments_reply w (take i tr) = Inr [d] \<and> 0 < i \<and>
                tr ! (i - 1) = QueryDocuments collection commit \<and>
                written = updated_release platform type asset isUpdate d \<and> s = release_self written)"
  proof (intro allI impI)
    fix i s written
    assume a: "length tr0 \<le> i \<and> i < length tr \<and> tr ! i = ReplaceDocument s written"
    then have p: "?P (take i tr) (ReplaceDocument s written)" using nth[of i] by simp
    then obtain d where d: "read_one w collection commit (take i tr) = Some d"
      "written = updated_release platform type asset isUpdate d" "s = release_self written"
      by (cases "read_one w collection commit (take i tr)") (auto simp: next_call_def)
    from d(1) have h: "take i tr \<noteq> []" "last (take i tr) = QueryDocuments collection commit"
      "queryDocuments_reply w (take i tr) = Inr [d]"
      by (auto simp: read_one_def split: if_splits sum.splits list.splits)
    from h(1) have pos: "0 < i" by (cases i) auto
    obtain j where j: "i = Suc j" using pos by (cases i) auto
    have "take i tr = take j tr @ [tr ! j]"
      using a j by (simp add: take_Suc_conv_app_nth)
    then have "last (take i tr) = tr ! (i - 1)" using j by simp
    then show "\<exists>d. queryDocuments_reply w (take i tr) = Inr [d] \<and> 0 < i \<and>
                tr ! (i - 1) = QueryDocuments collection commit \<and>
                written = updated_release platform type asset isUpdate d \<and> s = release_self written"
      using h pos d by auto
  qed
  show "\<forall>i d. length tr0 \<le> Suc i \<and> i < length tr \<and> tr ! i = QueryDocuments collection commit \<and>
               queryDocuments_reply w (take (Suc i) tr) = Inr [d] \<longrightarrow>
           Suc i < length tr \<and>
           tr ! Suc i = ReplaceDocument (release_self (updated_release platform type asset isUpdate d))
                          (updated_release platform type asset isUpdate d)"
  proof (intro allI impI)
    fix i d
    assume a: "length tr0 \<le> Suc i \<and> i < length tr \<and> tr ! i = QueryDocuments collection commit \<and>
               queryDocuments_reply w (take (Suc i) tr) = Inr [d]"
    then have "take (Suc i) tr = take i tr @ [QueryDocuments collection commit]"
      by (simp add: take_Suc_conv_app_nth)
    then have r: "read_one w collection commit (take (Suc i) tr) = Some d"
      using a by (simp add: read_one_def)
    have lt: "Suc i < length tr"
    proof (rule ccontr)
      assume "\<not> Suc i < length tr"
      then have "take (Suc i) tr = tr" using a by simp
      with r settled show False by simp
    qed
    from nth[of "Suc i"] a lt r
    show "Suc i < length tr \<and>
           tr ! Suc i = ReplaceDocument (release_self (updated_release platform type asset isUpdate d))
                          (updated_release platform type asset isUpdate d)"
      by (simp add: next_call_def)
  qed
  show "\<forall>i coll rel. length tr0 \<le> i \<and> i < length tr \<and> tr ! i = CreateDocument coll rel \<longrightarrow>
           coll = collection \<and> rel = release"
  proof (intro allI impI)
    fix i coll rel
    assume a: "length tr0 \<le> i \<and> i < length tr \<and> tr ! i = CreateDocument coll rel"
    then have "?P (take i tr) (CreateDocument coll rel)" using nth[of i] by simp
    then show "coll = collection \<and> rel = release"
      by (cases "read_one w collection commit (take i tr)") (auto simp: next_call_def)
  qed
qed

lemma updated_release_self:
  "release_self (updated_release platform type asset isUpdate d) = release_self d"
  by (simp add: updated_release_def Let_def)

lemma map_of_js_assign:
  "map_of (js_assign key v obj) key =
     (if key = ''__proto__'' \<and> map_of obj key = None then None else Some v)"
  by (auto simp: js_assign_def update_conv')

section \<open>The asset list of a release document\<close>

lemma updated_release_exactly_one:
  assumes key: "asset_platform asset = platform" "asset_type asset = type"
  shows "length (filter (\<lambda>a. asset_platform a = platform \<and> asset_type a = type)
                   (release_assets (updated_release platform type asset isUpdate d))) = 1"
proof -
  let ?keep = "filter (\<lambda>a. \<not> (asset_platform a = platform \<and> asset_type a = type)) (release_assets d)"
  have "filter (\<lambda>a. asset_platform a = platform \<and> asset_type a = type) ?keep = []"
    by (induction "release_assets d" arbitrary: d) (auto simp: filter_empty_conv)
  then show ?thesis using key by (simp add: updated_release_assets replace_asset_def)
qed

lemma updated_release_keeps_invariant:
  assumes key: "asset_platform asset = platform" "asset_type asset = type"
    and inv: "one_per_platform_type (release_assets d)"
  shows "one_per_platform_type (release_assets (updated_release platform type asset isUpdate d))"
proof -
  let ?keep = "filter (\<lambda>a. \<not> (asset_platform a = platform \<and> asset_type a = type)) (release_assets d)"
  have "distinct (map asset_key ?keep)"
    using inv unfolding one_per_platform_type_def by (rule distinct_map_filter)
  moreover have "asset_key asset \<notin> set (map asset_key ?keep)"
    using key by (auto simp: asset_key_def)
  ultimately show ?thesis
    by (simp add: one_per_platform_type_def updated_release_assets replace_asset_def)
qed

text \<open>
  Claim C2. A run of \<open>update\<close> first queries for the document. Whenever a query is
  answered with exactly one document, the next call writes back that document with its
  asset list filtered and the published asset appended; and every document that
  \<open>update\<close> writes is obtained so from the document read by the call before. When the
  published asset has the platform and type that \<open>update\<close> filters by, the asset list
  written has exactly one entry for that (platform, type) pair, and it has at most one
  entry per pair when the asset list read had.
\<close>

theorem update_keeps_one_asset_per_pair:
  assumes key: "asset_platform asset = platform" "asset_type asset = type"
    and run: "update w collection commit platform type asset isUpdate (n, tr) = (r, (n', tr'))"
  shows "length tr < length tr' \<and> take (length tr) tr' = tr \<and>
         tr' ! length tr = QueryDocuments collection commit \<and>
         (\<forall>i d. length tr \<le> i \<and> i < length tr' \<and> tr' ! i = QueryDocuments collection commit \<and>
                queryDocuments_reply w (take (Suc i) tr') = Inr [d] \<longrightarrow>
            Suc i < length tr' \<and>
            tr' ! Suc i = ReplaceDocument (release_self (updated_release platform type asset isUpdate d))
                            (updated_release platform type asset isUpdate d)) \<and>
         (\<forall>i s written. length tr \<le> i \<and> i < length tr' \<and> tr' ! i = ReplaceDocument s written \<longrightarrow>
            (\<exists>d. tr' ! (i - 1) = QueryDocuments collection commit \<and>
                 queryDocuments_reply w (take i tr') = Inr [d] \<and>
                 written = updated_release platform type asset isUpdate d \<and>
                 s = release_self written \<and>
                 release_assets written =
                   filter (\<lambda>a. \<not> (asset_platform a = platform \<and> asset_type a = type)) (release_assets d)
                     @ [asset] \<and>
                 length (filter (\<lambda>a. asset_platform a = platform \<and> asset_type a = type)
                           (release_assets written)) = 1 \<and>
                 (one_per_platform_type (release_assets d) \<longrightarrow>
                    one_per_platform_type (release_assets written))))"
proof -
  let ?q = "QueryDocuments collection commit"
  obtain some :: release where "some = some" by simp
  let ?P = "next_call w collection commit platform type some asset isUpdate"
  from update_follows[of w collection commit platform type some asset isUpdate tr n] run
  have f: "follows ?P (tr @ [?q]) tr'" and settled: "read_one w collection commit tr' = None"
    by (simp_all del: update.simps)
  from f obtain new where new: "tr' = (tr @ [?q]) @ new" unfolding follows_def by blast
  have shape: "length tr < length tr'" "take (length tr) tr' = tr" "tr' ! length tr = ?q"
    using new by (simp_all add: nth_append)
  note facts = next_call_facts[OF f settled]
  have after_read: "Suc i < length tr' \<and>
            tr' ! Suc i = ReplaceDocument (release_self (updated_release platform type asset isUpdate d))
                            (updated_release platform type asset isUpdate d)"
    if "length tr \<le> i \<and> i < length tr' \<and> tr' ! i = ?q \<and>
        queryDocuments_reply w (take (Suc i) tr') = Inr [d]" for i d
    using facts(2) that by simp
  have written_ok: "\<exists>d. tr' ! (i - 1) = ?q \<and>
                 queryDocuments_reply w (take i tr') = Inr [d] \<and>
                 written = updated_release platform type asset isUpdate d \<and>
                 s = release_self written \<and>
                 release_assets written =
                   filter (\<lambda>a. \<not> (asset_platform a = platform \<and> asset_type a = type)) (release_assets d)
                     @ [asset] \<and>
                 length (filter (\<lambda>a. asset_platform a = platform \<and> asset_type a = type)
                           (release_assets written)) = 1 \<and>
                 (one_per_platform_type (release_assets d) \<longrightarrow>
                    one_per_platform_type (release_assets written))"
    if a: "length tr \<le> i \<and> i < length tr' \<and> tr' ! i = ReplaceDocument s written" for i s written
  proof -
    have "i \<noteq> length tr" using a shape(3) by auto
    then have "length (tr @ [?q]) \<le> i" using a by simp
    with facts(1) a obtain d where d: "queryDocuments_reply w (take i tr') = Inr [d]"
      "tr' ! (i - 1) = ?q" "written = updated_release platform type asset isUpdate d"
      "s = release_self written"
      by blast
    have "release_assets written =
            filter (\<lambda>a. \<not> (asset_platform a = platform \<and> asset_type a = type)) (release_assets d) @ [asset]"
      using d(3) by (simp add: updated_release_assets replace_asset_def)
    moreover have "length (filter (\<lambda>a. asset_platform a = platform \<and> asset_type a = type)
                           (release_assets written)) = 1"
      unfolding d(3) by (rule updated_release_exactly_one[OF key])
    moreover have "one_per_platform_type (release_assets d) \<longrightarrow>
                    one_per_platform_type (release_assets written)"
      unfolding d(3) using updated_release_keeps_invariant[OF key] by blast
    ultimately show ?thesis using d by blast
  qed
  show ?thesis using shape after_read written_ok by blast
qed

text \<open>
  Claim C2, in the world where the document exists: \<open>update\<close> reads the stored document,
  with a linux archive and a win32 setup, and writes it back with the new linux archive
  in place of the old.
\<close>

theorem update_keeps_one_asset_per_pair_witness:
  "asset_platform linux_archive = ''linux-x64'' \<and> asset_type linux_archive = ''archive'' \<and>
   update existing_document_world ''dbs/builds/colls/insider'' ''abc123'' ''linux-x64'' ''archive''
       linux_archive True (0, []) =
     (Inr (), (1, [QueryDocuments ''dbs/builds/colls/insider'' ''abc123'',
                   ReplaceDocument (release_self stored_release)
                     (updated_release ''linux-x64'' ''archive'' linux_archive True stored_release)])) \<and>
   queryDocuments_reply existing_document_world
       [QueryDocuments ''dbs/builds/colls/insider'' ''abc123''] = Inr [stored_release] \<and>
   one_per_platform_type (release_assets stored_release) \<and>
   release_assets (updated_release ''linux-x64'' ''archive'' linux_archive True stored_release) =
     [example_asset ''win32-x64'' ''setup'' ''bb'', linux_archive] \<and>
   one_per_platform_type
     (release_assets (updated_release ''linux-x64'' ''archive'' linux_archive True stored_release))"
proof -
  let ?q = "QueryDocuments ''dbs/builds/colls/insider'' ''abc123''"
  let ?new = "updated_release ''linux-x64'' ''archive'' linux_archive True stored_release"
  let ?tr = "[?q, ReplaceDocument (release_self stored_release) ?new]"
  have k1: "asset_platform linux_archive = ''linux-x64''"
    and k2: "asset_type linux_archive = ''archive''"
    by (simp_all add: linux_archive_def example_asset_def)
  have run: "update existing_document_world ''dbs/builds/colls/insider'' ''abc123'' ''linux-x64''
       ''archive'' linux_archive True (0, []) = (Inr (), (1, ?tr))"
    by code_simp
  have read: "queryDocuments_reply existing_document_world [?q] = Inr [stored_release]"
    by (simp add: existing_document_world_def)
  have inv: "one_per_platform_type (release_assets stored_release)"
    by (simp add: one_per_platform_type_def stored_release_def example_asset_def asset_key_def)
  have assets: "release_assets ?new = [example_asset ''win32-x64'' ''setup'' ''bb'', linux_archive]"
    by (simp add: updated_release_assets replace_asset_def stored_release_def example_asset_def
        linux_archive_def)
  have at: "length [] \<le> (1::nat) \<and> 1 < length ?tr \<and>
            ?tr ! 1 = ReplaceDocument (release_self stored_release) ?new"
    by simp
  from update_keeps_one_asset_per_pair[OF k1 k2 run, THEN conjunct2, THEN conjunct2,
      THEN conjunct2, THEN conjunct2, rule_format, OF at]
  obtain d where d: "queryDocuments_reply existing_document_world (take 1 ?tr) = Inr [d]"
    "one_per_platform_type (release_assets d) \<longrightarrow> one_per_platform_type (release_assets ?new)"
    by blast
  have "d = stored_release" using d(1) read by simp
  then have "one_per_platform_type (release_assets ?new)"
    using d(2) inv by simp
  then show ?thesis using k1 k2 run read inv assets by simp
qed

section \<open>Conflicts in createOrUpdate\<close>

text \<open>
  Claim C4, as stated, fails in two ways. A \<open>createDocument\<close> call fails with a
  connection reset, which is not a conflict, and \<open>createOrUpdate\<close> does not fail:
  \<open>retry\<close> runs the attempt again, the second \<open>createDocument\<close> call succeeds, and so
  does \<open>createOrUpdate\<close>. And \<open>update\<close> runs six times in one call of \<open>createOrUpdate\<close>
  when five of its queries fail with a connection reset: every new attempt meets the
  conflict on \<open>createDocument\<close> and runs \<open>update\<close> once more.
\<close>

theorem createOrUpdate_retries_reset_counterexample:
  "createDocument_reply reset_once_world [CreateDocument ''dbs/builds/colls/insider'' example_release]
     = Some reset_error \<and>
   err_code reset_error \<noteq> NumCode 409 \<and>
   example_createOrUpdate reset_once_world =
     (Inr (), [CreateDocument ''dbs/builds/colls/insider'' example_release,
               CreateDocument ''dbs/builds/colls/insider'' example_release]) \<and>
   fst (example_createOrUpdate six_updates_world) = Inr () \<and>
   count_list (snd (example_createOrUpdate six_updates_world))
     (QueryDocuments ''dbs/builds/colls/insider'' ''abc123'') = 6 \<and>
   length (snd (example_createOrUpdate six_updates_world)) = 13"
  by code_simp

text \<open>
  Claim C4, amended. In an attempt of \<open>createOrUpdate\<close>, an error of \<open>createDocument\<close>
  with code 409 runs \<open>update\<close>, and any other error rejects the attempt. In \<open>update\<close>, an
  error of \<open>replaceDocument\<close> with code 409 runs \<open>update\<close> again as long as
  \<open>updateTries < 5\<close>, and otherwise, as any other error, rejects the attempt; the
  counter goes up by one with every query that \<open>update\<close> makes, and a run of \<open>update\<close>
  that starts with the counter below five leaves it at five at most. Of the attempts that
  \<open>createOrUpdate\<close> makes, at most ten, one that is rejected with an error whose message
  does not contain \<open>ECONNRESET\<close> is the last, and \<open>createOrUpdate\<close> fails with that
  error; one that is rejected with an \<open>ECONNRESET\<close> error is followed by another attempt,
  unless it is the tenth, and then \<open>createOrUpdate\<close> fails with
  \<open>Retried too many times\<close>; one that succeeds is the last, and \<open>createOrUpdate\<close>
  succeeds.
\<close>

theorem createOrUpdate_conflict_handling:
  "(\<forall>err. createDocument_reply w (tr @ [CreateDocument collection release]) = Some err \<longrightarrow>
      createOrUpdate_attempt w collection commit platform type release asset isUpdate (n, tr) =
        (if err_code err = NumCode 409
         then update w collection commit platform type asset isUpdate
                (n, tr @ [CreateDocument collection release])
         else (Inl err, (n, tr @ [CreateDocument collection release])))) \<and>
   (\<forall>d err.
      queryDocuments_reply w (tr @ [QueryDocuments collection commit]) = Inr [d] \<and>
      replaceDocument_reply w
        (tr @ [QueryDocuments collection commit,
               ReplaceDocument (release_self (updated_release platform type asset isUpdate d))
                 (updated_release platform type asset isUpdate d)]) = Some err \<longrightarrow>
      update w collection commit platform type asset isUpdate (n, tr) =
        (if err_code err = NumCode 409 \<and> n + 1 < 5
         then update w collection commit platform type asset isUpdate
                (n + 1, tr @ [QueryDocuments collection commit,
                   ReplaceDocument (release_self (updated_release platform type asset isUpdate d))
                     (updated_release platform type asset isUpdate d)])
         else (Inl err, (n + 1, tr @ [QueryDocuments collection commit,
                   ReplaceDocument (release_self (updated_release platform type asset isUpdate d))
                     (updated_release platform type asset isUpdate d)])))) \<and>
   (\<forall>r n' tr'. update w collection commit platform type asset isUpdate (n, tr) = (r, (n', tr')) \<longrightarrow>
      n < n' \<and> n' \<le> max (n + 1) 5 \<and>
      (\<exists>new. tr' = tr @ new \<and>
         length (filter (\<lambda>c. c = QueryDocuments collection commit) new) = n' - n)) \<and>
   (\<forall>run m h err s'.
      run \<le> RETRY_TIMES \<and>
      createOrUpdate_attempt w collection commit platform type release asset isUpdate (m, h) =
        (Inl err, s') \<longrightarrow>
      retry_from run (createOrUpdate_attempt w collection commit platform type release asset isUpdate)
          (m, h) =
        (if \<not> is_ECONNRESET err then (Inl err, s')
         else if run < RETRY_TIMES
         then retry_from (run + 1)
                (createOrUpdate_attempt w collection commit platform type release asset isUpdate) s'
         else (Inl (new_Error ''Retried too many times''), s'))) \<and>
   (\<forall>r log n' tr'.
      retry (logged (createOrUpdate_attempt w (''dbs/builds/colls/'' @ quality) commit platform type
                       release asset isUpdate)) ([], (0, tr)) = (r, (log, (n', tr'))) \<longrightarrow>
      createOrUpdate w commit quality platform type release asset isUpdate tr = (r, tr') \<and>
      log \<noteq> [] \<and> length log \<le> 10 \<and>
      (\<forall>i e. i < length log \<and> log ! i = Inl e \<and> \<not> is_ECONNRESET e \<longrightarrow>
         Suc i = length log \<and> r = Inl e) \<and>
      (\<forall>i e. i < length log \<and> log ! i = Inl e \<and> is_ECONNRESET e \<longrightarrow>
         Suc i < length log \<or>
         (Suc i = 10 \<and> length log = 10 \<and> r = Inl (new_Error ''Retried too many times''))) \<and>
      (\<forall>i v. i < length log \<and> log ! i = Inr v \<longrightarrow> Suc i = length log \<and> r = Inr v))"
proof -
  have create_error: "(\<forall>err. createDocument_reply w (tr @ [CreateDocument collection release]) = Some err \<longrightarrow>
      createOrUpdate_attempt w collection commit platform type release asset isUpdate (n, tr) =
        (if err_code err = NumCode 409
         then update w collection commit platform type asset isUpdate
                (n, tr @ [CreateDocument collection release])
         else (Inl err, (n, tr @ [CreateDocument collection release]))))"
    by (intro allI impI) (simp add: createOrUpdate_attempt_def Let_def del: update.simps)
  have replace_error: "(\<forall>d err.
      queryDocuments_reply w (tr @ [QueryDocuments collection commit]) = Inr [d] \<and>
      replaceDocument_reply w
        (tr @ [QueryDocuments collection commit,
               ReplaceDocument (release_self (updated_release platform type asset isUpdate d))
                 (updated_release platform type asset isUpdate d)]) = Some err \<longrightarrow>
      update w collection commit platform type asset isUpdate (n, tr) =
        (if err_code err = NumCode 409 \<and> n + 1 < 5
         then update w collection commit platform type asset isUpdate
                (n + 1, tr @ [QueryDocuments collection commit,
                   ReplaceDocument (release_self (updated_release platform type asset isUpdate d))
                     (updated_release platform type asset isUpdate d)])
         else (Inl err, (n + 1, tr @ [QueryDocuments collection commit,
                   ReplaceDocument (release_self (updated_release platform type asset isUpdate d))
                     (updated_release platform type asset isUpdate d)]))))"
  proof (intro allI impI)
    fix d err
    let ?rel = "updated_release platform type asset isUpdate d"
    assume a: "queryDocuments_reply w (tr @ [QueryDocuments collection commit]) = Inr [d] \<and>
      replaceDocument_reply w
        (tr @ [QueryDocuments collection commit, ReplaceDocument (release_self ?rel) ?rel]) = Some err"
    show "update w collection commit platform type asset isUpdate (n, tr) =
        (if err_code err = NumCode 409 \<and> n + 1 < 5
         then update w collection commit platform type asset isUpdate
                (n + 1, tr @ [QueryDocuments collection commit, ReplaceDocument (release_self ?rel) ?rel])
         else (Inl err, (n + 1, tr @ [QueryDocuments collection commit,
                   ReplaceDocument (release_self ?rel) ?rel])))"
      using a by (subst update.simps) (simp add: Let_def del: update.simps)
  qed
  have update_counter: "(\<forall>r n' tr'. update w collection commit platform type asset isUpdate (n, tr) = (r, (n', tr')) \<longrightarrow>
      n < n' \<and> n' \<le> max (n + 1) 5 \<and>
      (\<exists>new. tr' = tr @ new \<and>
         length (filter (\<lambda>c. c = QueryDocuments collection commit) new) = n' - n))"
  proof (intro allI impI)
    fix r n' tr'
    assume "update w collection commit platform type asset isUpdate (n, tr) = (r, (n', tr'))"
    then have "snd (snd (update w collection commit platform type asset isUpdate (n, tr))) = tr'"
      "fst (snd (update w collection commit platform type asset isUpdate (n, tr))) = n'"
      by (simp_all del: update.simps)
    with update_runs[of w collection commit platform type asset isUpdate n tr]
    show "n < n' \<and> n' \<le> max (n + 1) 5 \<and>
      (\<exists>new. tr' = tr @ new \<and>
         length (filter (\<lambda>c. c = QueryDocuments collection commit) new) = n' - n)"
      by (auto simp del: update.simps)
  qed
  have attempt_step: "(\<forall>run m h err s'.
      run \<le> RETRY_TIMES \<and>
      createOrUpdate_attempt w collection commit platform type release asset isUpdate (m, h) =
        (Inl err, s') \<longrightarrow>
      retry_from run (createOrUpdate_attempt w collection commit platform type release asset isUpdate)
          (m, h) =
        (if \<not> is_ECONNRESET err then (Inl err, s')
         else if run < RETRY_TIMES
         then retry_from (run + 1)
                (createOrUpdate_attempt w collection commit platform type release asset isUpdate) s'
         else (Inl (new_Error ''Retried too many times''), s')))"
  proof (intro allI impI)
    fix run m h err s'
    assume a: "run \<le> RETRY_TIMES \<and>
      createOrUpdate_attempt w collection commit platform type release asset isUpdate (m, h) =
        (Inl err, s')"
    then have r: "run \<le> RETRY_TIMES"
      and f: "createOrUpdate_attempt w collection commit platform type release asset isUpdate (m, h) =
        (Inl err, s')"
      by blast+
    show "retry_from run (createOrUpdate_attempt w collection commit platform type release asset isUpdate)
          (m, h) =
        (if \<not> is_ECONNRESET err then (Inl err, s')
         else if run < RETRY_TIMES
         then retry_from (run + 1)
                (createOrUpdate_attempt w collection commit platform type release asset isUpdate) s'
         else (Inl (new_Error ''Retried too many times''), s'))"
      by (rule retry_from_step[where fn = "createOrUpdate_attempt w collection commit platform type
            release asset isUpdate" and s = "(m, h)", OF r f])
  qed
  have attempts: "(\<forall>r log n' tr'.
      retry (logged (createOrUpdate_attempt w (''dbs/builds/colls/'' @ quality) commit platform type
                       release asset isUpdate)) ([], (0, tr)) = (r, (log, (n', tr'))) \<longrightarrow>
      createOrUpdate w commit quality platform type release asset isUpdate tr = (r, tr') \<and>
      log \<noteq> [] \<and> length log \<le> 10 \<and>
      (\<forall>i e. i < length log \<and> log ! i = Inl e \<and> \<not> is_ECONNRESET e \<longrightarrow>
         Suc i = length log \<and> r = Inl e) \<and>
      (\<forall>i e. i < length log \<and> log ! i = Inl e \<and> is_ECONNRESET e \<longrightarrow>
         Suc i < length log \<or>
         (Suc i = 10 \<and> length log = 10 \<and> r = Inl (new_Error ''Retried too many times''))) \<and>
      (\<forall>i v. i < length log \<and> log ! i = Inr v \<longrightarrow> Suc i = length log \<and> r = Inr v))"
  proof (intro allI impI)
    fix r log n' tr'
    assume a: "retry (logged (createOrUpdate_attempt w (''dbs/builds/colls/'' @ quality) commit platform type
                       release asset isUpdate)) ([], (0, tr)) = (r, (log, (n', tr')))"
    note o = retry_logged_outcomes[OF a]
    have "createOrUpdate w commit quality platform type release asset isUpdate tr = (r, tr')"
      using o(1) by (simp add: createOrUpdate_def Let_def)
    then show "createOrUpdate w commit quality platform type release asset isUpdate tr = (r, tr') \<and>
      log \<noteq> [] \<and> length log \<le> 10 \<and>
      (\<forall>i e. i < length log \<and> log ! i = Inl e \<and> \<not> is_ECONNRESET e \<longrightarrow>
         Suc i = length log \<and> r = Inl e) \<and>
      (\<forall>i e. i < length log \<and> log ! i = Inl e \<and> is_ECONNRESET e \<longrightarrow>
         Suc i < length log \<or>
         (Suc i = 10 \<and> length log = 10 \<and> r = Inl (new_Error ''Retried too many times''))) \<and>
      (\<forall>i v. i < length log \<and> log ! i = Inr v \<longrightarrow> Suc i = length log \<and> r = Inr v)"
      using o(2-6) by (intro conjI)
  qed
  show ?thesis
    by (intro conjI create_error replace_error update_counter attempt_step attempts)
qed

text \<open>
  Claim C4 as amended, in a world where the document exists and every write is answered
  with a conflict: the attempt runs \<open>update\<close> five times and \<open>createOrUpdate\<close> fails
  with the conflict; and in a world where every \<open>createDocument\<close> call is answered with a
  connection reset: after ten attempts \<open>createOrUpdate\<close> fails with
  \<open>Retried too many times\<close>.
\<close>

theorem createOrUpdate_conflict_handling_witness:
  "createDocument_reply conflict_world [CreateDocument ''dbs/builds/colls/insider'' example_release]
     = Some conflict_error \<and>
   createOrUpdate_attempt conflict_world ''dbs/builds/colls/insider'' ''abc123'' ''linux-x64'' ''archive''
       example_release linux_archive True (0, []) =
     update conflict_world ''dbs/builds/colls/insider'' ''abc123'' ''linux-x64'' ''archive''
       linux_archive True (0, [CreateDocument ''dbs/builds/colls/insider'' example_release]) \<and>
   fst (snd (update conflict_world ''dbs/builds/colls/insider'' ''abc123'' ''linux-x64'' ''archive''
       linux_archive True (0, [CreateDocument ''dbs/builds/colls/insider'' example_release]))) = 5 \<and>
   createOrUpdate conflict_world ''abc123'' ''insider'' ''linux-x64'' ''archive'' example_release
       linux_archive True [] =
     (Inl conflict_error,
      snd (snd (update conflict_world ''dbs/builds/colls/insider'' ''abc123'' ''linux-x64'' ''archive''
       linux_archive True (0, [CreateDocument ''dbs/builds/colls/insider'' example_release])))) \<and>
   createOrUpdate always_reset_world ''abc123'' ''insider'' ''linux-x64'' ''archive'' example_release
       linux_archive True [] =
     (Inl (new_Error ''Retried too many times''),
      replicate 10 (CreateDocument ''dbs/builds/colls/insider'' example_release))"
proof -
  let ?coll = "''dbs/builds/colls/insider''"
  let ?c = "CreateDocument ?coll example_release"
  let ?upd = "update conflict_world ?coll ''abc123'' ''linux-x64'' ''archive'' linux_archive True
       (0, [?c])"
  note inst = createOrUpdate_conflict_handling[where w = conflict_world and tr = "[]"
      and collection = ?coll and release = example_release and commit = "''abc123''"
      and platform = "''linux-x64''" and type = "''archive''" and asset = linux_archive
      and isUpdate = True and n = 0 and quality = "''insider''"]
  note inst_reset = createOrUpdate_conflict_handling[where w = always_reset_world and tr = "[]"
      and collection = ?coll and release = example_release and commit = "''abc123''"
      and platform = "''linux-x64''" and type = "''archive''" and asset = linux_archive
      and isUpdate = True and n = 0 and quality = "''insider''"]
  have coll: "''dbs/builds/colls/'' @ ''insider'' = ?coll" by simp
  have create: "createDocument_reply conflict_world ([] @ [?c]) = Some conflict_error"
    by (simp add: conflict_world_def)
  have code: "err_code conflict_error = NumCode 409" by (simp add: conflict_error_def)
  from inst[THEN conjunct1, rule_format, OF create]
  have attempt: "createOrUpdate_attempt conflict_world ?coll ''abc123'' ''linux-x64'' ''archive''
       example_release linux_archive True (0, []) = ?upd"
    using code by (simp del: update.simps)
  have tries: "fst (snd ?upd) = 5" by code_simp
  have logged_run: "retry (logged (createOrUpdate_attempt conflict_world (''dbs/builds/colls/'' @ ''insider'')
           ''abc123'' ''linux-x64'' ''archive'' example_release linux_archive True)) ([], (0, [])) =
         (Inl conflict_error, ([Inl conflict_error], (5, snd (snd ?upd))))"
    by code_simp
  from inst[THEN conjunct2, THEN conjunct2, THEN conjunct2, THEN conjunct2, rule_format, OF logged_run]
  have fails: "createOrUpdate conflict_world ''abc123'' ''insider'' ''linux-x64'' ''archive''
      example_release linux_archive True [] = (Inl conflict_error, snd (snd ?upd))"
    by (elim conjE)
  have reset_run: "retry (logged (createOrUpdate_attempt always_reset_world
           (''dbs/builds/colls/'' @ ''insider'') ''abc123'' ''linux-x64'' ''archive'' example_release
           linux_archive True)) ([], (0, [])) =
         (Inl (new_Error ''Retried too many times''),
          (replicate 10 (Inl reset_error), (0, replicate 10 ?c)))"
    by code_simp
  from inst_reset[THEN conjunct2, THEN conjunct2, THEN conjunct2, THEN conjunct2, rule_format,
      OF reset_run]
  have too_many: "createOrUpdate always_reset_world ''abc123'' ''insider'' ''linux-x64'' ''archive''
      example_release linux_archive True [] =
      (Inl (new_Error ''Retried too many times''), replicate 10 ?c)"
    by (elim conjE)
  show ?thesis using create attempt tries fails too_many by (simp del: update.simps)
qed

section \<open>The calls of publish\<close>

lemma publish_unfold:
  "publish w commit quality platform type name version isUpdate_arg file opts tr0 =
     (let tr1 = tr0 @ [Stat file] in
      case stat_reply w tr1 of
        Inl e \<Rightarrow> (Inl e, tr1)
      | Inr file_size \<Rightarrow>
     (let tr3 = tr1 @ [HashStream ''sha1'' file, HashStream ''sha256'' file] in
      case hash_reply w tr3 ''sha1'' of
        Inl e \<Rightarrow> (Inl e, tr3)
      | Inr sha1hash \<Rightarrow>
     (case hash_reply w tr3 ''sha256'' of
        Inl e \<Rightarrow> (Inl e, tr3)
      | Inr sha256hash \<Rightarrow>
     (let tr4 = tr3 @ [CreateContainerIfNotExists quality ''blob''] in
      case createContainer_reply w tr4 of
        Some e \<Rightarrow> (Inl e, tr4)
      | None \<Rightarrow>
     (let blobName = commit @ ''/'' @ name;
          tr5 = tr4 @ [DoesBlobExist quality blobName] in
      case doesBlobExist_reply w tr5 of
        Inl e \<Rightarrow> (Inl e, tr5)
      | Inr blobExists \<Rightarrow>
          if blobExists then (Inr (), tr5)
          else
     (let tr6 = tr5 @ [CreateBlockBlobFromLocalFile quality blobName file
                         (mime_lookup w file) ''max-age=31536000, public''] in
      case createBlockBlob_reply w tr6 of
        Some e \<Rightarrow> (Inl e, tr6)
      | None \<Rightarrow>
     (case getConfig w quality tr6 of
        (Inl e, tr7) \<Rightarrow> (Inl e, tr7)
      | (Inr config, tr7) \<Rightarrow>
          (let asset = make_asset w quality platform type blobName sha1hash sha256hash file_size;
               release = make_release w commit quality platform type version
                           (isUpdate_arg = ''true'') asset opts
           in createOrUpdate w commit quality platform type release asset
                (isUpdate_arg = ''true'') tr7))))))))"
  by (simp add: publish_def await_def fs_stat_def hashStreams_def assertContainer_def
      doesAssetExist_def uploadBlob_def resolve_def callback_result_def Let_def
      split: sum.splits option.splits prod.splits)

lemma config_call_not_document: "config_call quality c \<Longrightarrow> \<not> is_document_call c \<and> is_config_query c"
  by (simp add: config_call_def)

lemma document_call_is_document:
  "document_call collection commit platform type release asset isUpdate c \<Longrightarrow> is_document_call c"
  by (auto simp: document_call_def update_call_def)

lemma publish_shape:
  assumes run: "publish w commit quality platform type name version isUpdate_arg file opts [] = (r, tr)"
  shows "((\<forall>c \<in> set tr. \<not> is_document_call c) \<and> (r = Inr () \<longrightarrow> (\<forall>c \<in> set tr. \<not> is_upload c \<and> \<not> is_config_query c)))
     \<or> (\<exists>file_size sha1hash sha256hash config cfg docs asset release.
          stat_reply w (take 1 (upload_calls w commit quality name file)) = Inr file_size \<and>
          hash_reply w (take 3 (upload_calls w commit quality name file)) ''sha1'' = Inr sha1hash \<and>
          hash_reply w (take 3 (upload_calls w commit quality name file)) ''sha256'' = Inr sha256hash \<and>
          createContainer_reply w (take 4 (upload_calls w commit quality name file)) = None \<and>
          doesBlobExist_reply w (take 5 (upload_calls w commit quality name file)) = Inr False \<and>
          createBlockBlob_reply w (upload_calls w commit quality name file) = None \<and>
          getConfig w quality (upload_calls w commit quality name file) =
            (Inr config, upload_calls w commit quality name file @ cfg) \<and>
          asset = make_asset w quality platform type (commit @ ''/'' @ name) sha1hash sha256hash file_size \<and>
          release = make_release w commit quality platform type version (isUpdate_arg = ''true'') asset opts \<and>
          createOrUpdate w commit quality platform type release asset (isUpdate_arg = ''true'')
            (upload_calls w commit quality name file @ cfg) = (r, tr) \<and>
          tr = upload_calls w commit quality name file @ cfg @
                 CreateDocument (''dbs/builds/colls/'' @ quality) release # docs \<and>
          cfg \<noteq> [] \<and> (\<forall>c \<in> set cfg. config_call quality c) \<and>
          (\<forall>c \<in> set docs. document_call (''dbs/builds/colls/'' @ quality) commit platform type
                              release asset (isUpdate_arg = ''true'') c))"
proof -
  let ?pre = "upload_calls w commit quality name file"
  note u = run[unfolded publish_unfold Let_def, simplified]
  show ?thesis
  proof (cases "stat_reply w (take 1 ?pre)")
    case (Inl e)
    then show ?thesis using u by (auto simp: upload_calls_def)
  next
    case stat: (Inr file_size)
    show ?thesis
    proof (cases "hash_reply w (take 3 ?pre) ''sha1''")
      case (Inl e)
      then show ?thesis using u stat by (auto simp: upload_calls_def)
    next
      case h1: (Inr sha1hash)
      show ?thesis
      proof (cases "hash_reply w (take 3 ?pre) ''sha256''")
        case (Inl e)
        then show ?thesis using u stat h1 by (auto simp: upload_calls_def)
      next
        case h2: (Inr sha256hash)
        show ?thesis
        proof (cases "createContainer_reply w (take 4 ?pre)")
          case (Some e)
          then show ?thesis using u stat h1 h2 by (auto simp: upload_calls_def)
        next
          case cont: None
          show ?thesis
          proof (cases "doesBlobExist_reply w (take 5 ?pre)")
            case (Inl e)
            then show ?thesis using u stat h1 h2 cont by (auto simp: upload_calls_def)
          next
            case ex: (Inr blobExists)
            show ?thesis
            proof (cases blobExists)
              case True
              then show ?thesis using u stat h1 h2 cont ex by (auto simp: upload_calls_def)
            next
              case nb: False
              show ?thesis
              proof (cases "createBlockBlob_reply w ?pre")
                case (Some e)
                then show ?thesis using u stat h1 h2 cont ex nb by (auto simp: upload_calls_def)
              next
                case up: None
                obtain rc tr7 where gc: "getConfig w quality ?pre = (rc, tr7)"
                  by (cases "getConfig w quality ?pre")
                obtain cfg' where cfg': "tr7 = ?pre @ QueryConfig ''dbs/builds/colls/config'' quality # cfg'"
                  "\<forall>c \<in> set cfg'. config_call quality c"
                  using getConfig_trace[of w quality ?pre] gc by auto
                let ?cfg = "QueryConfig ''dbs/builds/colls/config'' quality # cfg'"
                have cfg: "\<forall>c \<in> set ?cfg. config_call quality c" using cfg'(2)
                  by (simp add: config_call_def)
                have pub: "publish w commit quality platform type name version isUpdate_arg file opts [] =
                    (case rc of
                       Inl e \<Rightarrow> (Inl e, tr7)
                     | Inr config \<Rightarrow>
                         createOrUpdate w commit quality platform type
                           (make_release w commit quality platform type version (isUpdate_arg = ''true'')
                              (make_asset w quality platform type (commit @ ''/'' @ name) sha1hash sha256hash file_size) opts)
                           (make_asset w quality platform type (commit @ ''/'' @ name) sha1hash sha256hash file_size)
                           (isUpdate_arg = ''true'') tr7)"
                  using stat h1 h2 cont ex nb up gc
                  by (simp add: publish_unfold Let_def upload_calls_def split: sum.splits)
                show ?thesis
                proof (cases rc)
                  case (Inl e)
                  have "r = Inl e" "tr = tr7" using run pub Inl by auto
                  moreover have "\<forall>c \<in> set tr7. \<not> is_document_call c"
                    unfolding cfg'(1) using cfg'(2) by (auto simp: upload_calls_def config_call_def)
                  ultimately show ?thesis by simp
                next
                  case (Inr config)
                  let ?asset = "make_asset w quality platform type (commit @ ''/'' @ name) sha1hash sha256hash file_size"
                  let ?release = "make_release w commit quality platform type version (isUpdate_arg = ''true'') ?asset opts"
                  have cu: "createOrUpdate w commit quality platform type ?release ?asset
                          (isUpdate_arg = ''true'') (?pre @ ?cfg) = (r, tr)"
                    using run pub Inr cfg'(1) by simp
                  obtain docs where docs: "tr = (?pre @ ?cfg) @ CreateDocument (''dbs/builds/colls/'' @ quality) ?release # docs"
                    "\<forall>c \<in> set docs. document_call (''dbs/builds/colls/'' @ quality) commit platform type
                              ?release ?asset (isUpdate_arg = ''true'') c"
                    using createOrUpdate_trace[of w commit quality platform type ?release ?asset
                        "isUpdate_arg = ''true''" "?pre @ ?cfg"] cu by auto
                  have "getConfig w quality ?pre = (Inr config, ?pre @ ?cfg)"
                    using gc Inr cfg'(1) by simp
                  then show ?thesis using stat h1 h2 cont ex nb up cu docs cfg
                    by (intro disjI2 exI[of _ file_size] exI[of _ sha1hash] exI[of _ sha256hash]
                        exI[of _ config] exI[of _ ?cfg] exI[of _ docs] exI[of _ ?asset]
                        exI[of _ ?release]) simp
                qed
              qed
            qed
          qed
        qed
      qed
    qed
  qed
qed

text \<open>
  Claim C1. When the storage service answers that the blob \<open>commit/name\<close> exists in the
  container of the quality, a run of \<open>publish\<close> uploads no blob, does not query the
  quality config and makes no call on a release document; and when the steps before the
  check succeed, \<open>publish\<close> returns normally after the check, having made the five calls
  up to it and no other.
\<close>

theorem publish_existing_blob:
  assumes exists: "doesBlobExist_reply w (take 5 (upload_calls w commit quality name file)) = Inr True"
    and run: "publish w commit quality platform type name version isUpdate_arg file opts [] = (r, tr)"
  shows "(\<forall>c \<in> set tr. \<not> is_upload c \<and> \<not> is_config_query c \<and> \<not> is_document_call c) \<and>
         ((\<exists>file_size. stat_reply w (take 1 (upload_calls w commit quality name file)) = Inr file_size) \<and>
          (\<exists>sha1hash. hash_reply w (take 3 (upload_calls w commit quality name file)) ''sha1'' = Inr sha1hash) \<and>
          (\<exists>sha256hash. hash_reply w (take 3 (upload_calls w commit quality name file)) ''sha256'' = Inr sha256hash) \<and>
          createContainer_reply w (take 4 (upload_calls w commit quality name file)) = None
          \<longrightarrow> r = Inr () \<and> tr = take 5 (upload_calls w commit quality name file))"
  using run exists
  by (auto simp: publish_unfold Let_def upload_calls_def split: sum.splits option.splits)

text \<open>
  Claim C1, in a world where the blob exists.
\<close>

theorem publish_existing_blob_witness:
  "doesBlobExist_reply existing_blob_world
     (take 5 (upload_calls existing_blob_world ''abc123'' ''insider'' ''app.tar.gz'' ''/tmp/app.tar.gz''))
     = Inr True \<and>
   example_publish existing_blob_world (example_opts False) =
     (Inr (), [Stat ''/tmp/app.tar.gz'', HashStream ''sha1'' ''/tmp/app.tar.gz'',
               HashStream ''sha256'' ''/tmp/app.tar.gz'',
               CreateContainerIfNotExists ''insider'' ''blob'',
               DoesBlobExist ''insider'' ''abc123/app.tar.gz'']) \<and>
   filter (\<lambda>c. is_upload c \<or> is_config_query c \<or> is_document_call c)
     (snd (example_publish existing_blob_world (example_opts False))) = []"
proof -
  let ?tr = "[Stat ''/tmp/app.tar.gz'', HashStream ''sha1'' ''/tmp/app.tar.gz'',
               HashStream ''sha256'' ''/tmp/app.tar.gz'',
               CreateContainerIfNotExists ''insider'' ''blob'',
               DoesBlobExist ''insider'' ''abc123/app.tar.gz'']"
  have exists: "doesBlobExist_reply existing_blob_world
     (take 5 (upload_calls existing_blob_world ''abc123'' ''insider'' ''app.tar.gz'' ''/tmp/app.tar.gz''))
     = Inr True"
    by (simp add: existing_blob_world_def)
  have run: "publish existing_blob_world ''abc123'' ''insider'' ''linux-x64'' ''archive'' ''app.tar.gz''
       ''1.0.0'' ''true'' ''/tmp/app.tar.gz'' (example_opts False) [] = (Inr (), ?tr)"
    by code_simp
  from publish_existing_blob[OF exists run]
  have "\<forall>c \<in> set ?tr. \<not> is_upload c \<and> \<not> is_config_query c \<and> \<not> is_document_call c"
    by blast
  then have "filter (\<lambda>c. is_upload c \<or> is_config_query c \<or> is_document_call c) ?tr = []"
    by (simp add: filter_empty_conv)
  then show ?thesis using exists run by (simp add: example_publish_def)
qed

text \<open>
  Claim C6. A run of \<open>publish\<close> that succeeds and uploads, and more generally any run
  that writes a release document, has made its calls in this order: \<open>fs.stat\<close>, the two
  stream hashes, \<open>createContainerIfNotExists\<close>, \<open>doesBlobExist\<close>, the upload, then one or
  more queries for the quality config, then the calls of \<open>createOrUpdate\<close>, of which the
  first is a document write; and each step before \<open>createOrUpdate\<close> has succeeded. So the
  blob is uploaded before any document is written, and no document is written when an
  earlier step fails.
\<close>

theorem publish_call_order:
  assumes run: "publish w commit quality platform type name version isUpdate_arg file opts [] = (r, tr)"
    and reach: "(r = Inr () \<and> (\<exists>c \<in> set tr. is_upload c)) \<or> (\<exists>c \<in> set tr. is_document_write c)"
  shows "\<exists>file_size sha1hash sha256hash config cfg docs.
          stat_reply w (take 1 (upload_calls w commit quality name file)) = Inr file_size \<and>
          hash_reply w (take 3 (upload_calls w commit quality name file)) ''sha1'' = Inr sha1hash \<and>
          hash_reply w (take 3 (upload_calls w commit quality name file)) ''sha256'' = Inr sha256hash \<and>
          createContainer_reply w (take 4 (upload_calls w commit quality name file)) = None \<and>
          doesBlobExist_reply w (take 5 (upload_calls w commit quality name file)) = Inr False \<and>
          createBlockBlob_reply w (upload_calls w commit quality name file) = None \<and>
          getConfig w quality (upload_calls w commit quality name file) =
            (Inr config, upload_calls w commit quality name file @ cfg) \<and>
          tr = upload_calls w commit quality name file @ cfg @ docs \<and>
          cfg \<noteq> [] \<and> (\<forall>c \<in> set cfg. c = QueryConfig ''dbs/builds/colls/config'' quality) \<and>
          docs \<noteq> [] \<and> is_document_write (hd docs) \<and> (\<forall>c \<in> set docs. is_document_call c)"
proof -
  let ?pre = "upload_calls w commit quality name file"
  from reach have "\<not> ((\<forall>c \<in> set tr. \<not> is_document_call c) \<and>
      (r = Inr () \<longrightarrow> (\<forall>c \<in> set tr. \<not> is_upload c \<and> \<not> is_config_query c)))"
  proof
    assume "r = Inr () \<and> (\<exists>c \<in> set tr. is_upload c)"
    then show ?thesis by blast
  next
    assume "\<exists>c \<in> set tr. is_document_write c"
    then obtain c where c: "c \<in> set tr" "is_document_write c" by blast
    have "is_document_call c" using c(2) by (cases c) simp_all
    then show ?thesis using \<open>c \<in> set tr\<close> by blast
  qed
  with publish_shape[OF run]
  obtain file_size sha1hash sha256hash config cfg docs asset release where f:
    "stat_reply w (take 1 ?pre) = Inr file_size"
    "hash_reply w (take 3 ?pre) ''sha1'' = Inr sha1hash"
    "hash_reply w (take 3 ?pre) ''sha256'' = Inr sha256hash"
    "createContainer_reply w (take 4 ?pre) = None"
    "doesBlobExist_reply w (take 5 ?pre) = Inr False"
    "createBlockBlob_reply w ?pre = None"
    "getConfig w quality ?pre = (Inr config, ?pre @ cfg)"
    "tr = ?pre @ cfg @ CreateDocument (''dbs/builds/colls/'' @ quality) release # docs"
    "cfg \<noteq> []" "\<forall>c \<in> set cfg. config_call quality c"
    "\<forall>c \<in> set docs. document_call (''dbs/builds/colls/'' @ quality) commit platform type
                              release asset (isUpdate_arg = ''true'') c"
    by blast
  let ?docs = "CreateDocument (''dbs/builds/colls/'' @ quality) release # docs"
  have "\<forall>c \<in> set ?docs. is_document_call c" using f(11) document_call_is_document by auto
  moreover have "\<forall>c \<in> set cfg. c = QueryConfig ''dbs/builds/colls/config'' quality"
    using f(10) by (simp add: config_call_def)
  ultimately show ?thesis using f(1-9)
    by (intro exI[of _ file_size] exI[of _ sha1hash] exI[of _ sha256hash]
        exI[of _ config] exI[of _ cfg] exI[of _ ?docs]) simp
qed

text \<open>
  Claim C6, in the world where every call succeeds.
\<close>

theorem publish_call_order_witness:
  "fst (example_publish example_world (example_opts False)) = Inr () \<and>
   list_ex is_upload (snd (example_publish example_world (example_opts False))) \<and>
   (\<exists>cfg docs.
      snd (example_publish example_world (example_opts False)) =
        upload_calls example_world ''abc123'' ''insider'' ''app.tar.gz'' ''/tmp/app.tar.gz'' @ cfg @ docs \<and>
      cfg \<noteq> [] \<and> docs \<noteq> [] \<and> is_document_write (hd docs))"
proof -
  obtain r tr where run: "publish example_world ''abc123'' ''insider'' ''linux-x64'' ''archive'' ''app.tar.gz''
       ''1.0.0'' ''true'' ''/tmp/app.tar.gz'' (example_opts False) [] = (r, tr)"
    by (cases "publish example_world ''abc123'' ''insider'' ''linux-x64'' ''archive'' ''app.tar.gz''
       ''1.0.0'' ''true'' ''/tmp/app.tar.gz'' (example_opts False) []")
  have ok: "fst (example_publish example_world (example_opts False)) = Inr ()"
    by code_simp
  have up: "list_ex is_upload (snd (example_publish example_world (example_opts False)))"
    by code_simp
  have reach: "(r = Inr () \<and> (\<exists>c \<in> set tr. is_upload c)) \<or> (\<exists>c \<in> set tr. is_document_write c)"
    using ok up run by (simp add: example_publish_def list_ex_iff)
  from publish_call_order[OF run reach] obtain cfg docs where
    "tr = upload_calls example_world ''abc123'' ''insider'' ''app.tar.gz'' ''/tmp/app.tar.gz'' @ cfg @ docs"
    "cfg \<noteq> []" "docs \<noteq> []" "is_document_write (hd docs)"
    by blast
  then show ?thesis using ok up run by (auto simp: example_publish_def)
qed

lemma publish_documents:
  assumes run: "publish w commit quality platform type name version isUpdate_arg file opts [] = (r, tr)"
  shows "(\<forall>c \<in> set tr. \<not> is_document_call c) \<or>
     (\<exists>file_size sha1hash sha256hash cfg.
        stat_reply w (take 1 (upload_calls w commit quality name file)) = Inr file_size \<and>
        hash_reply w (take 3 (upload_calls w commit quality name file)) ''sha1'' = Inr sha1hash \<and>
        hash_reply w (take 3 (upload_calls w commit quality name file)) ''sha256'' = Inr sha256hash \<and>
        (\<forall>c \<in> set (upload_calls w commit quality name file @ cfg). \<not> is_document_call c) \<and>
        follows
          (next_call w (''dbs/builds/colls/'' @ quality) commit platform type
             (make_release w commit quality platform type version (isUpdate_arg = ''true'')
                (make_asset w quality platform type (commit @ ''/'' @ name) sha1hash sha256hash file_size)
                opts)
             (make_asset w quality platform type (commit @ ''/'' @ name) sha1hash sha256hash file_size)
             (isUpdate_arg = ''true''))
          (upload_calls w commit quality name file @ cfg) tr \<and>
        read_one w (''dbs/builds/colls/'' @ quality) commit tr = None)"
proof -
  let ?pre = "upload_calls w commit quality name file"
  let ?coll = "''dbs/builds/colls/'' @ quality"
  from publish_shape[OF run] show ?thesis
  proof
    assume "(\<forall>c \<in> set tr. \<not> is_document_call c) \<and>
       (r = Inr () \<longrightarrow> (\<forall>c \<in> set tr. \<not> is_upload c \<and> \<not> is_config_query c))"
    then show ?thesis by blast
  next
    assume "\<exists>file_size sha1hash sha256hash config cfg docs asset release.
          stat_reply w (take 1 ?pre) = Inr file_size \<and>
          hash_reply w (take 3 ?pre) ''sha1'' = Inr sha1hash \<and>
          hash_reply w (take 3 ?pre) ''sha256'' = Inr sha256hash \<and>
          createContainer_reply w (take 4 ?pre) = None \<and>
          doesBlobExist_reply w (take 5 ?pre) = Inr False \<and>
          createBlockBlob_reply w ?pre = None \<and>
          getConfig w quality ?pre = (Inr config, ?pre @ cfg) \<and>
          asset = make_asset w quality platform type (commit @ ''/'' @ name) sha1hash sha256hash file_size \<and>
          release = make_release w commit quality platform type version (isUpdate_arg = ''true'') asset opts \<and>
          createOrUpdate w commit quality platform type release asset (isUpdate_arg = ''true'')
            (?pre @ cfg) = (r, tr) \<and>
          tr = ?pre @ cfg @ CreateDocument ?coll release # docs \<and>
          cfg \<noteq> [] \<and> (\<forall>c \<in> set cfg. config_call quality c) \<and>
          (\<forall>c \<in> set docs. document_call ?coll commit platform type
                              release asset (isUpdate_arg = ''true'') c)"
    then obtain file_size sha1hash sha256hash cfg asset release where f:
      "stat_reply w (take 1 ?pre) = Inr file_size"
      "hash_reply w (take 3 ?pre) ''sha1'' = Inr sha1hash"
      "hash_reply w (take 3 ?pre) ''sha256'' = Inr sha256hash"
      "asset = make_asset w quality platform type (commit @ ''/'' @ name) sha1hash sha256hash file_size"
      "release = make_release w commit quality platform type version (isUpdate_arg = ''true'') asset opts"
      "createOrUpdate w commit quality platform type release asset (isUpdate_arg = ''true'')
            (?pre @ cfg) = (r, tr)"
      "cfg \<noteq> []" "\<forall>c \<in> set cfg. config_call quality c"
      by blast
    have "last (?pre @ cfg) \<in> set cfg" using f(7) by simp
    then have "config_call quality (last (?pre @ cfg))" using f(8) by blast
    then have start: "read_one w ?coll commit (?pre @ cfg) = None"
      by (simp add: read_one_def config_call_def)
    have quiet: "\<forall>c \<in> set (?pre @ cfg). \<not> is_document_call c"
      using f(8) by (auto simp: upload_calls_def config_call_def)
    from createOrUpdate_follows[OF start, of platform type release asset "isUpdate_arg = ''true''"] f(6)
    have "follows (next_call w ?coll commit platform type release asset (isUpdate_arg = ''true''))
            (?pre @ cfg) tr \<and> read_one w ?coll commit tr = None"
      by simp
    then show ?thesis using f(1-5) quiet by blast
  qed
qed

text \<open>
  Claim C8. Every document that a run of \<open>publish\<close> passes to \<open>createDocument\<close> is
  the release that \<open>publish\<close> has built: with \<open>--upload-only\<close> its asset list and its
  updates are empty, without the flag it holds the published asset and, when
  \<open>isUpdate\<close>, the result of the assignment \<open>updates[platform] = type\<close>. With or without
  the flag, every document that the run passes to \<open>replaceDocument\<close> is the one document
  that the query before it has read, with the assets of the published (platform, type)
  pair filtered out, the published asset appended and, when \<open>isUpdate\<close>, the assignment
  \<open>updates[platform] = type\<close> made (which sets the entry of every platform but
  \<open>__proto__\<close>); and every query of the run that is answered with exactly one document
  is followed by such a write.
\<close>

theorem upload_only_create_path_only:
  assumes run: "publish w commit quality platform type name version isUpdate_arg file opts [] = (r, tr)"
  shows
   "(\<forall>i collection release. i < length tr \<and> tr ! i = CreateDocument collection release \<longrightarrow>
       (\<exists>file_size sha1hash sha256hash.
          stat_reply w (take 1 (upload_calls w commit quality name file)) = Inr file_size \<and>
          hash_reply w (take 3 (upload_calls w commit quality name file)) ''sha1'' = Inr sha1hash \<and>
          hash_reply w (take 3 (upload_calls w commit quality name file)) ''sha256'' = Inr sha256hash \<and>
          collection = ''dbs/builds/colls/'' @ quality \<and>
          release = make_release w commit quality platform type version (isUpdate_arg = ''true'')
                      (make_asset w quality platform type (commit @ ''/'' @ name) sha1hash sha256hash
                         file_size) opts \<and>
          release_assets release =
            (if opts_upload_only opts then []
             else [make_asset w quality platform type (commit @ ''/'' @ name) sha1hash sha256hash
                     file_size]) \<and>
          release_updates release =
            (if opts_upload_only opts then []
             else if isUpdate_arg = ''true'' then js_assign platform type [] else []) \<and>
          map_of (release_updates release) platform =
            (if opts_upload_only opts \<or> isUpdate_arg \<noteq> ''true'' \<or> platform = ''__proto__''
             then None else Some type))) \<and>
    (\<forall>i self release. i < length tr \<and> tr ! i = ReplaceDocument self release \<longrightarrow>
       (\<exists>file_size sha1hash sha256hash d.
          stat_reply w (take 1 (upload_calls w commit quality name file)) = Inr file_size \<and>
          hash_reply w (take 3 (upload_calls w commit quality name file)) ''sha1'' = Inr sha1hash \<and>
          hash_reply w (take 3 (upload_calls w commit quality name file)) ''sha256'' = Inr sha256hash \<and>
          tr ! (i - 1) = QueryDocuments (''dbs/builds/colls/'' @ quality) commit \<and>
          queryDocuments_reply w (take i tr) = Inr [d] \<and>
          self = release_self d \<and>
          release = updated_release platform type
                      (make_asset w quality platform type (commit @ ''/'' @ name) sha1hash sha256hash
                         file_size) (isUpdate_arg = ''true'') d \<and>
          release_assets release =
            filter (\<lambda>a. \<not> (asset_platform a = platform \<and> asset_type a = type)) (release_assets d)
              @ [make_asset w quality platform type (commit @ ''/'' @ name) sha1hash sha256hash
                   file_size] \<and>
          release_updates release =
            (if isUpdate_arg = ''true'' then js_assign platform type (release_updates d)
             else release_updates d) \<and>
          map_of (release_updates release) platform =
            (if isUpdate_arg = ''true''
             then (if platform = ''__proto__'' \<and> map_of (release_updates d) platform = None
                   then None else Some type)
             else map_of (release_updates d) platform))) \<and>
    (\<forall>i d. i < length tr \<and> tr ! i = QueryDocuments (''dbs/builds/colls/'' @ quality) commit \<and>
           queryDocuments_reply w (take (Suc i) tr) = Inr [d] \<longrightarrow>
       Suc i < length tr \<and> (\<exists>self release. tr ! Suc i = ReplaceDocument self release))"
proof -
  let ?pre = "upload_calls w commit quality name file"
  let ?coll = "''dbs/builds/colls/'' @ quality"
  from publish_documents[OF run] show ?thesis
  proof
    assume none: "\<forall>c \<in> set tr. \<not> is_document_call c"
    have "\<not> is_document_call (tr ! i)" if "i < length tr" for i
      using none that by simp
    then have "tr ! i \<noteq> CreateDocument collection release"
      "tr ! i \<noteq> ReplaceDocument self release"
      "tr ! i \<noteq> QueryDocuments ?coll commit" if "i < length tr" for i collection release self
      using that by fastforce+
    then show ?thesis by blast
  next
    assume "\<exists>file_size sha1hash sha256hash cfg.
        stat_reply w (take 1 ?pre) = Inr file_size \<and>
        hash_reply w (take 3 ?pre) ''sha1'' = Inr sha1hash \<and>
        hash_reply w (take 3 ?pre) ''sha256'' = Inr sha256hash \<and>
        (\<forall>c \<in> set (?pre @ cfg). \<not> is_document_call c) \<and>
        follows
          (next_call w ?coll commit platform type
             (make_release w commit quality platform type version (isUpdate_arg = ''true'')
                (make_asset w quality platform type (commit @ ''/'' @ name) sha1hash sha256hash file_size)
                opts)
             (make_asset w quality platform type (commit @ ''/'' @ name) sha1hash sha256hash file_size)
             (isUpdate_arg = ''true''))
          (?pre @ cfg) tr \<and>
        read_one w ?coll commit tr = None"
    then obtain file_size sha1hash sha256hash cfg where g:
      "stat_reply w (take 1 ?pre) = Inr file_size"
      "hash_reply w (take 3 ?pre) ''sha1'' = Inr sha1hash"
      "hash_reply w (take 3 ?pre) ''sha256'' = Inr sha256hash"
      "\<forall>c \<in> set (?pre @ cfg). \<not> is_document_call c"
      and f: "follows
          (next_call w ?coll commit platform type
             (make_release w commit quality platform type version (isUpdate_arg = ''true'')
                (make_asset w quality platform type (commit @ ''/'' @ name) sha1hash sha256hash file_size)
                opts)
             (make_asset w quality platform type (commit @ ''/'' @ name) sha1hash sha256hash file_size)
             (isUpdate_arg = ''true''))
          (?pre @ cfg) tr"
      and settled: "read_one w ?coll commit tr = None"
      by blast
    let ?asset = "make_asset w quality platform type (commit @ ''/'' @ name) sha1hash sha256hash file_size"
    let ?release = "make_release w commit quality platform type version (isUpdate_arg = ''true'') ?asset opts"
    let ?tr0 = "?pre @ cfg"
    note facts = next_call_facts[OF f settled]
    from f obtain new where new: "tr = ?tr0 @ new" unfolding follows_def by blast
    have late: "length ?tr0 \<le> i" if "i < length tr" "is_document_call (tr ! i)" for i
    proof (rule ccontr)
      assume "\<not> length ?tr0 \<le> i"
      then have lt: "i < length ?tr0" by simp
      then have "tr ! i = ?tr0 ! i" using new by (metis nth_append)
      moreover have "?tr0 ! i \<in> set ?tr0" using lt by (rule nth_mem)
      ultimately show False using g(4) that(2) by metis
    qed
    have create: "\<exists>file_size sha1hash sha256hash.
          stat_reply w (take 1 ?pre) = Inr file_size \<and>
          hash_reply w (take 3 ?pre) ''sha1'' = Inr sha1hash \<and>
          hash_reply w (take 3 ?pre) ''sha256'' = Inr sha256hash \<and>
          collection = ?coll \<and>
          release = make_release w commit quality platform type version (isUpdate_arg = ''true'')
                      (make_asset w quality platform type (commit @ ''/'' @ name) sha1hash sha256hash
                         file_size) opts \<and>
          release_assets release =
            (if opts_upload_only opts then []
             else [make_asset w quality platform type (commit @ ''/'' @ name) sha1hash sha256hash
                     file_size]) \<and>
          release_updates release =
            (if opts_upload_only opts then []
             else if isUpdate_arg = ''true'' then js_assign platform type [] else []) \<and>
          map_of (release_updates release) platform =
            (if opts_upload_only opts \<or> isUpdate_arg \<noteq> ''true'' \<or> platform = ''__proto__''
             then None else Some type)"
      if a: "i < length tr \<and> tr ! i = CreateDocument collection release" for i collection release
    proof -
      have "length ?tr0 \<le> i" using late[of i] a by simp
      with facts(3) a have eq: "collection = ?coll" "release = ?release" by blast+
      have "release_assets ?release = (if opts_upload_only opts then [] else [?asset])"
        "release_updates ?release =
            (if opts_upload_only opts then []
             else if isUpdate_arg = ''true'' then js_assign platform type [] else [])"
        "map_of (release_updates ?release) platform =
            (if opts_upload_only opts \<or> isUpdate_arg \<noteq> ''true'' \<or> platform = ''__proto__''
             then None else Some type)"
        by (simp_all add: make_release_def Let_def map_of_js_assign)
      then show ?thesis using g(1-3) eq by blast
    qed
    have replace: "\<exists>file_size sha1hash sha256hash d.
          stat_reply w (take 1 ?pre) = Inr file_size \<and>
          hash_reply w (take 3 ?pre) ''sha1'' = Inr sha1hash \<and>
          hash_reply w (take 3 ?pre) ''sha256'' = Inr sha256hash \<and>
          tr ! (i - 1) = QueryDocuments ?coll commit \<and>
          queryDocuments_reply w (take i tr) = Inr [d] \<and>
          self = release_self d \<and>
          release = updated_release platform type
                      (make_asset w quality platform type (commit @ ''/'' @ name) sha1hash sha256hash
                         file_size) (isUpdate_arg = ''true'') d \<and>
          release_assets release =
            filter (\<lambda>a. \<not> (asset_platform a = platform \<and> asset_type a = type)) (release_assets d)
              @ [make_asset w quality platform type (commit @ ''/'' @ name) sha1hash sha256hash
                   file_size] \<and>
          release_updates release =
            (if isUpdate_arg = ''true'' then js_assign platform type (release_updates d)
             else release_updates d) \<and>
          map_of (release_updates release) platform =
            (if isUpdate_arg = ''true''
             then (if platform = ''__proto__'' \<and> map_of (release_updates d) platform = None
                   then None else Some type)
             else map_of (release_updates d) platform)"
      if a: "i < length tr \<and> tr ! i = ReplaceDocument self release" for i self release
    proof -
      have "length ?tr0 \<le> i" using late[of i] a by simp
      with facts(1) a obtain d where d: "queryDocuments_reply w (take i tr) = Inr [d]"
        "tr ! (i - 1) = QueryDocuments ?coll commit"
        "release = updated_release platform type ?asset (isUpdate_arg = ''true'') d"
        "self = release_self release"
        by blast
      have "self = release_self d" using d(3,4) by (simp add: updated_release_self)
      moreover have "release_assets release =
            filter (\<lambda>a. \<not> (asset_platform a = platform \<and> asset_type a = type)) (release_assets d)
              @ [?asset]"
        using d(3) by (simp add: updated_release_assets replace_asset_def)
      moreover have "release_updates release =
            (if isUpdate_arg = ''true'' then js_assign platform type (release_updates d)
             else release_updates d)"
        using d(3) by (simp add: updated_release_updates)
      moreover have "map_of (release_updates release) platform =
            (if isUpdate_arg = ''true''
             then (if platform = ''__proto__'' \<and> map_of (release_updates d) platform = None
                   then None else Some type)
             else map_of (release_updates d) platform)"
        using d(3) by (simp add: updated_release_updates map_of_js_assign)
      ultimately show ?thesis using g(1-3) d(1-3) by blast
    qed
    have written: "Suc i < length tr \<and> (\<exists>self release. tr ! Suc i = ReplaceDocument self release)"
      if a: "i < length tr \<and> tr ! i = QueryDocuments ?coll commit \<and>
             queryDocuments_reply w (take (Suc i) tr) = Inr [d]" for i d
    proof -
      have "length ?tr0 \<le> Suc i" using late[of i] a by simp
      with facts(2) a show ?thesis by blast
    qed
    show ?thesis using create replace written by blast
  qed
qed

text \<open>
  Claim C8, in the world where no document exists, with \<open>--upload-only\<close> and without
  it, and in the world where the document exists, with \<open>--upload-only\<close>.
\<close>

theorem upload_only_create_path_only_witness:
  "snd (example_publish example_world (example_opts True)) ! 7 =
     CreateDocument ''dbs/builds/colls/insider'' upload_only_release \<and>
   release_assets upload_only_release = [] \<and> release_updates upload_only_release = [] \<and>
   snd (example_publish example_world (example_opts False)) ! 7 =
     CreateDocument ''dbs/builds/colls/insider'' full_release \<and>
   release_assets full_release = [published_asset] \<and>
   release_updates full_release = [(''linux-x64'', ''archive'')] \<and>
   snd (example_publish existing_document_world (example_opts True)) ! 8 =
     QueryDocuments ''dbs/builds/colls/insider'' ''abc123'' \<and>
   snd (example_publish existing_document_world (example_opts True)) ! 9 =
     ReplaceDocument (release_self stored_release)
       (updated_release ''linux-x64'' ''archive'' published_asset True stored_release) \<and>
   release_assets (updated_release ''linux-x64'' ''archive'' published_asset True stored_release) =
     [example_asset ''win32-x64'' ''setup'' ''bb'', published_asset] \<and>
   map_of (release_updates (updated_release ''linux-x64'' ''archive'' published_asset True stored_release))
     ''linux-x64'' = Some ''archive''"
proof -
  let ?coll = "''dbs/builds/colls/insider''"
  let ?new = "updated_release ''linux-x64'' ''archive'' published_asset True stored_release"
  obtain r1 t1 where run1: "publish example_world ''abc123'' ''insider'' ''linux-x64'' ''archive''
       ''app.tar.gz'' ''1.0.0'' ''true'' ''/tmp/app.tar.gz'' (example_opts True) [] = (r1, t1)"
    by (cases "publish example_world ''abc123'' ''insider'' ''linux-x64'' ''archive''
       ''app.tar.gz'' ''1.0.0'' ''true'' ''/tmp/app.tar.gz'' (example_opts True) []")
  obtain r2 t2 where run2: "publish example_world ''abc123'' ''insider'' ''linux-x64'' ''archive''
       ''app.tar.gz'' ''1.0.0'' ''true'' ''/tmp/app.tar.gz'' (example_opts False) [] = (r2, t2)"
    by (cases "publish example_world ''abc123'' ''insider'' ''linux-x64'' ''archive''
       ''app.tar.gz'' ''1.0.0'' ''true'' ''/tmp/app.tar.gz'' (example_opts False) []")
  obtain r3 t3 where run3: "publish existing_document_world ''abc123'' ''insider'' ''linux-x64''
       ''archive'' ''app.tar.gz'' ''1.0.0'' ''true'' ''/tmp/app.tar.gz'' (example_opts True) [] = (r3, t3)"
    by (cases "publish existing_document_world ''abc123'' ''insider'' ''linux-x64''
       ''archive'' ''app.tar.gz'' ''1.0.0'' ''true'' ''/tmp/app.tar.gz'' (example_opts True) []")
  have e1: "snd (example_publish example_world (example_opts True)) ! 7 =
              CreateDocument ?coll upload_only_release"
    and l1: "length (snd (example_publish example_world (example_opts True))) = 8"
    by code_simp+
  have e2: "snd (example_publish example_world (example_opts False)) ! 7 =
              CreateDocument ?coll full_release"
    and l2: "length (snd (example_publish example_world (example_opts False))) = 8"
    by code_simp+
  have e3: "snd (example_publish existing_document_world (example_opts True)) ! 9 =
              ReplaceDocument (release_self stored_release) ?new"
    and q3: "snd (example_publish existing_document_world (example_opts True)) ! 8 =
              QueryDocuments ?coll ''abc123''"
    and l3: "length (snd (example_publish existing_document_world (example_opts True))) = 10"
    by code_simp+
  have only: "opts_upload_only (example_opts True)" "\<not> opts_upload_only (example_opts False)"
    by (simp_all add: example_opts_def)
  have at1: "7 < length t1 \<and> t1 ! 7 = CreateDocument ?coll upload_only_release"
    using e1 l1 run1 by (simp add: example_publish_def)
  from upload_only_create_path_only[OF run1, THEN conjunct1, rule_format, OF at1] only(1)
  have c1: "release_assets upload_only_release = [] \<and> release_updates upload_only_release = []"
    by auto
  have at2: "7 < length t2 \<and> t2 ! 7 = CreateDocument ?coll full_release"
    using e2 l2 run2 by (simp add: example_publish_def)
  from upload_only_create_path_only[OF run2, THEN conjunct1, rule_format, OF at2] only(2)
  have c2: "release_assets full_release = [published_asset] \<and>
            release_updates full_release = [(''linux-x64'', ''archive'')]"
    by (auto simp: example_world_def upload_calls_def published_asset_def js_assign_def)
  have at3: "9 < length t3 \<and> t3 ! 9 = ReplaceDocument (release_self stored_release) ?new"
    using e3 l3 run3 by (simp add: example_publish_def)
  from upload_only_create_path_only[OF run3, THEN conjunct2, THEN conjunct1, rule_format, OF at3]
  obtain d where d: "queryDocuments_reply existing_document_world (take 9 t3) = Inr [d]"
    "map_of (release_updates ?new) ''linux-x64'' =
       (if ''true'' = ''true''
        then (if ''linux-x64'' = ''__proto__'' \<and> map_of (release_updates d) ''linux-x64'' = None
              then None else Some ''archive'')
        else map_of (release_updates d) ''linux-x64'')"
    by blast
  from d(2) have c3: "map_of (release_updates ?new) ''linux-x64'' = Some ''archive''" by simp
  have assets: "release_assets ?new = [example_asset ''win32-x64'' ''setup'' ''bb'', published_asset]"
    by (simp add: updated_release_assets replace_asset_def stored_release_def example_asset_def)
  show ?thesis using e1 e2 e3 q3 c1 c2 c3 assets by simp
qed

section \<open>The exit code of the script\<close>

text \<open>
  Claim C7. With fewer than nine elements in \<open>process.argv\<close> the script exits with
  code -1. Otherwise, with the commit set, when \<open>publish\<close> rejects, the script prints the
  error and exits with code 1; that includes the run with fewer than seven positional
  arguments, where \<open>file\<close> is undefined.
\<close>

theorem publish_js_exit_code:
  "(length (argv w) < 9 \<longrightarrow> fst (publish_js w) = - 1) \<and>
   (9 \<le> length (argv w) \<and> process_env w ''BUILD_SOURCEVERSION'' = Some commit \<and> commit \<noteq> [] \<and>
    opts_positional (minimist w (drop 2 (argv w))) =
      quality # platform # type # name # version # isUpdate_arg # file # rest \<and>
    publish w commit quality platform type name version isUpdate_arg file
      (minimist w (drop 2 (argv w))) [] = (Inl err, tr)
    \<longrightarrow> publish_js w = (1, tr @ [ConsoleError (err_message err)])) \<and>
   (9 \<le> length (argv w) \<and> process_env w ''BUILD_SOURCEVERSION'' = Some commit \<and> commit \<noteq> [] \<and>
    length (opts_positional (minimist w (drop 2 (argv w)))) < 7
    \<longrightarrow> publish_js w = (1, [ConsoleError (err_message (stat_undefined w))]))"
proof (intro conjI impI)
  assume "length (argv w) < 9"
  then show "fst (publish_js w) = - 1" by (simp add: publish_js_def)
next
  assume a: "9 \<le> length (argv w) \<and> process_env w ''BUILD_SOURCEVERSION'' = Some commit \<and> commit \<noteq> [] \<and>
    opts_positional (minimist w (drop 2 (argv w))) =
      quality # platform # type # name # version # isUpdate_arg # file # rest \<and>
    publish w commit quality platform type name version isUpdate_arg file
      (minimist w (drop 2 (argv w))) [] = (Inl err, tr)"
  then show "publish_js w = (1, tr @ [ConsoleError (err_message err)])"
    by (simp add: publish_js_def main_def Let_def)
next
  assume a: "9 \<le> length (argv w) \<and> process_env w ''BUILD_SOURCEVERSION'' = Some commit \<and> commit \<noteq> [] \<and>
    length (opts_positional (minimist w (drop 2 (argv w)))) < 7"
  then have "(case opts_positional (minimist w (drop 2 (argv w))) of
                quality # platform # type # name # version # isUpdate_arg # file # rest \<Rightarrow>
                  publish w commit quality platform type name version isUpdate_arg file
                    (minimist w (drop 2 (argv w))) []
              | _ \<Rightarrow> (Inl (stat_undefined w), [])) = (Inl (stat_undefined w), [])"
    by (auto split: list.splits)
  then show "publish_js w = (1, [ConsoleError (err_message (stat_undefined w))])"
    using a by (simp add: publish_js_def main_def Let_def)
qed

text \<open>
  Claim C7, with too few arguments and with a file that does not exist.
\<close>

theorem publish_js_exit_code_witness:
  "length (argv short_argv_world) < 9 \<and> fst (publish_js short_argv_world) = - 1 \<and>
   9 \<le> length (argv missing_file_world) \<and>
   publish_js missing_file_world =
     (1, [Stat ''/tmp/app.tar.gz'', ConsoleError ''ENOENT: no such file or directory''])"
proof -
  let ?err = "\<lparr>err_message = ''ENOENT: no such file or directory'', err_code = StrCode ''ENOENT''\<rparr>"
  have short: "length (argv short_argv_world) < 9"
    by (simp add: short_argv_world_def example_world_def)
  have long: "9 \<le> length (argv missing_file_world)"
    by (simp add: missing_file_world_def example_world_def)
  have commit: "process_env missing_file_world ''BUILD_SOURCEVERSION'' = Some ''abc123''"
    by (simp add: missing_file_world_def example_world_def)
  have pos: "opts_positional (minimist missing_file_world (drop 2 (argv missing_file_world))) =
      ''insider'' # ''linux-x64'' # ''archive'' # ''app.tar.gz'' # ''1.0.0'' # ''true'' #
      ''/tmp/app.tar.gz'' # []"
    by (simp add: missing_file_world_def example_world_def)
  have fails: "publish missing_file_world ''abc123'' ''insider'' ''linux-x64'' ''archive'' ''app.tar.gz''
      ''1.0.0'' ''true'' ''/tmp/app.tar.gz''
      (minimist missing_file_world (drop 2 (argv missing_file_world))) [] =
      (Inl ?err, [Stat ''/tmp/app.tar.gz''])"
    by (simp add: publish_unfold missing_file_world_def example_world_def)
  have "fst (publish_js short_argv_world) = - 1"
    using publish_js_exit_code[of short_argv_world] short by blast
  moreover have "publish_js missing_file_world =
      (1, [Stat ''/tmp/app.tar.gz''] @ [ConsoleError (err_message ?err)])"
    using publish_js_exit_code[of missing_file_world "''abc123''" "''insider''" "''linux-x64''"
        "''archive''" "''app.tar.gz''" "''1.0.0''" "''true''" "''/tmp/app.tar.gz''" "[]" ?err
        "[Stat ''/tmp/app.tar.gz'']"] long commit pos fails
    by simp
  ultimately show ?thesis using short long by simp
qed

text \<open>
  Claim C10. When \<open>BUILD_SOURCEVERSION\<close> is unset or empty, \<open>main\<close> prints the warning,
  makes no other call, and the process ends with exit code 0; so does the whole script
  when it reaches \<open>main\<close>.
\<close>

theorem main_skips_without_commit:
  assumes "process_env w ''BUILD_SOURCEVERSION'' = None \<or> process_env w ''BUILD_SOURCEVERSION'' = Some []"
  shows "main w = (0, [ConsoleWarn ''Skipping publish due to missing BUILD_SOURCEVERSION'']) \<and>
         (9 \<le> length (argv w) \<longrightarrow>
            publish_js w = (0, [ConsoleWarn ''Skipping publish due to missing BUILD_SOURCEVERSION'']))"
  using assms by (auto simp: main_def publish_js_def)

text \<open>
  Claim C10, in a world whose environment has no variable set.
\<close>

theorem main_skips_without_commit_witness:
  "process_env no_commit_world ''BUILD_SOURCEVERSION'' = None \<and>
   9 \<le> length (argv no_commit_world) \<and>
   main no_commit_world = (0, [ConsoleWarn ''Skipping publish due to missing BUILD_SOURCEVERSION'']) \<and>
   publish_js no_commit_world = (0, [ConsoleWarn ''Skipping publish due to missing BUILD_SOURCEVERSION''])"
proof -
  have unset: "process_env no_commit_world ''BUILD_SOURCEVERSION'' = None"
    by (simp add: no_commit_world_def)
  have long: "9 \<le> length (argv no_commit_world)"
    by (simp add: no_commit_world_def example_world_def)
  show ?thesis
    using main_skips_without_commit[of no_commit_world, OF disjI1[OF unset]] unset long by simp
qed

section \<open>Properties of the table cell editors\<close>

text \<open>
  Claim C5. In every state of a text editor and of a dropdown editor, \<open>validate\<close>
  returns \<open>{ valid: true, msg: undefined }\<close>.
\<close>

theorem editors_always_valid:
  "text_validate ed = \<lparr>valid = True, msg = None\<rparr> \<and>
   dropdown_validate ded = \<lparr>valid = True, msg = None\<rparr>"
  by (simp add: text_validate_def dropdown_validate_def)

text \<open>
  Claim C9. After \<open>loadValue(item)\<close> on a text editor, \<open>serializeValue\<close> returns the
  value of the getter for the item and the column of the editor, or the empty string
  when the getter yields nothing, and \<open>isValueChanged\<close> returns false; after the user
  has put \<open>v\<close> into the widget, \<open>isValueChanged\<close> returns whether \<open>v\<close> differs from that
  loaded value.
\<close>

theorem text_loadValue_then_read:
  "text_serializeValue (text_loadValue self item ed) =
     (case factory_valueGetter self item (te_column ed) of None \<Rightarrow> [] | Some v \<Rightarrow> v) \<and>
   text_isValueChanged (text_loadValue self item ed) = Inr False \<and>
   text_isValueChanged (user_types v (text_loadValue self item ed)) =
     Inr (v \<noteq> (case factory_valueGetter self item (te_column ed) of None \<Rightarrow> [] | Some v \<Rightarrow> v))"
  by (simp add: text_serializeValue_def text_loadValue_def text_isValueChanged_def user_types_def
      Let_def)

end
